theory Spec2Isabelle
  imports Complex_Main "HOL-Library.List_Lexorder" "HOL-Library.Multiset"
begin

section \<open>Python strings\<close>

text \<open>
  A Python \<open>str\<close> is a sequence of Unicode code points, so a string is a list of
  natural numbers; the HOL type \<open>string\<close> holds bytes and cannot carry the byte-order
  mark U+FEFF. \<open>py\<close> embeds an ASCII literal. Python compares strings
  lexicographically by code point, which is the order of \<open>List_Lexorder\<close>.
\<close>

type_synonym pystr = "nat list"

definition py :: "string \<Rightarrow> pystr" where
  "py s = map of_char s"

text \<open>The code points for which \<open>str.isspace\<close> holds: what \<open>str.strip()\<close> removes.\<close>

definition isspace :: "nat \<Rightarrow> bool" where
  "isspace c \<longleftrightarrow>
     (9 \<le> c \<and> c \<le> 13) \<or> (28 \<le> c \<and> c \<le> 32) \<or> c = 133 \<or> c = 160 \<or> c = 5760 \<or>
     (8192 \<le> c \<and> c \<le> 8202) \<or> c = 8232 \<or> c = 8233 \<or> c = 8239 \<or> c = 8287 \<or> c = 12288"

definition strip :: "pystr \<Rightarrow> pystr" where
  "strip s = rev (dropWhile isspace (rev (dropWhile isspace s)))"

text \<open>\<open>s.replace(c, "")\<close> for a one-character \<open>c\<close>: every occurrence is deleted.\<close>

definition remove_char :: "nat \<Rightarrow> pystr \<Rightarrow> pystr" where
  "remove_char c s = filter (\<lambda>x. x \<noteq> c) s"

text \<open>
  \<open>str.lower()\<close>. On a string of ASCII characters it shifts the letters A to Z by 32.
  On any other string it follows the Unicode case tables, which belong to the
  interpreter and not to this program: they are the parameter \<open>U\<close>.
\<close>

definition ascii_lower :: "nat \<Rightarrow> nat" where
  "ascii_lower c = (if 65 \<le> c \<and> c \<le> 90 then c + 32 else c)"

definition lower :: "(pystr \<Rightarrow> pystr) \<Rightarrow> pystr \<Rightarrow> pystr" where
  "lower U s = (if \<forall>c \<in> set s. c < 128 then map ascii_lower s else U s)"

section \<open>Schema normalizer\<close>

text \<open>
  Step 2 of the script, applied to one header:
  \<^verbatim>\<open>df.columns.str.strip()\<close>, then \<open>.str.replace\<close> deleting U+FEFF (the byte-order mark,
  65279) and then U+00A0 (the non-breaking space, 160).
\<close>

definition fix_column_name :: "pystr \<Rightarrow> pystr" where
  "fix_column_name h = remove_char 160 (remove_char 65279 (strip h))"

text \<open>The dictionary \<open>rename_map\<close>, in the order it is written.\<close>

definition rename_map :: "(pystr \<times> pystr) list" where
  "rename_map =
    [(py ''channelname'', py ''ChannelName''),
     (py ''productcategory'', py ''ProductCategory''),
     (py ''date'', py ''Date''),
     (py ''productname'', py ''ProductName''),
     (py ''netweightkgs'', py ''NetWeightKGs''),
     (py ''salescategory'', py ''SalesCategory''),
     (py ''paymenttype'', py ''PaymentType''),
     (py ''customername'', py ''CustomerName'')]"

text \<open>\<^verbatim>\<open>key = col.lower().replace(" ", "").replace("_", "")\<close>\<close>

definition key_of :: "(pystr \<Rightarrow> pystr) \<Rightarrow> pystr \<Rightarrow> pystr" where
  "key_of U col = remove_char 95 (remove_char 32 (lower U col))"

text \<open>\<^verbatim>\<open>rename_map.get(key, col)\<close>\<close>

definition canonical :: "(pystr \<Rightarrow> pystr) \<Rightarrow> pystr \<Rightarrow> pystr" where
  "canonical U col = (case map_of rename_map (key_of U col) of Some c \<Rightarrow> c | None \<Rightarrow> col)"

text \<open>
  The loop that fills the dictionary \<open>clean_cols\<close>: one entry per column, a later
  column with the same name overwriting the earlier entry.
\<close>

fun clean_cols :: "(pystr \<Rightarrow> pystr) \<Rightarrow> (pystr \<rightharpoonup> pystr) \<Rightarrow> pystr list \<Rightarrow> (pystr \<rightharpoonup> pystr)" where
  "clean_cols U acc [] = acc"
| "clean_cols U acc (col # cols) = clean_cols U (acc(col \<mapsto> canonical U col)) cols"

text \<open>
  \<open>df.rename(columns=clean_cols)\<close>: every column label that is a key of the
  dictionary is replaced by its value, the others stay; nothing looks at whether two
  labels become equal.
\<close>

definition rename_columns :: "(pystr \<rightharpoonup> pystr) \<Rightarrow> pystr list \<Rightarrow> pystr list" where
  "rename_columns m cols = map (\<lambda>c. case m c of Some c' \<Rightarrow> c' | None \<Rightarrow> c) cols"

text \<open>Steps 2 and 3 together, from the raw headers to the headers of the normalized table.\<close>

definition normalize_header :: "(pystr \<Rightarrow> pystr) \<Rightarrow> pystr \<Rightarrow> pystr" where
  "normalize_header U h = canonical U (fix_column_name h)"

definition normalize_columns :: "(pystr \<Rightarrow> pystr) \<Rightarrow> pystr list \<Rightarrow> pystr list" where
  "normalize_columns U raw =
     (let cols = map fix_column_name raw
      in rename_columns (clean_cols U Map.empty cols) cols)"

section \<open>The cleaned table as the chart builder reads it\<close>

text \<open>
  The chart builder reads five columns of the cleaned table: the three text columns it
  groups by, the derived \<open>Month\<close> label and the weight. A row of the cleaned table is a
  record of these. Weights are exact real numbers: the rounding of floating-point
  addition and the IEEE infinities are outside this model.
\<close>

record sale =
  ChannelName :: pystr
  SalesCategory :: pystr
  ProductName :: pystr
  Month :: pystr
  NetWeightKGs :: real

datatype py_error = IndexError | KeyError | ValueError | TypeError | AttributeError

text \<open>\<open>Series.unique()\<close>: the distinct values in the order of first appearance.\<close>

definition unique :: "'a list \<Rightarrow> 'a list" where
  "unique xs = rev (remdups (rev xs))"

text \<open>
  \<^verbatim>\<open>df.groupby(key)["NetWeightKGs"].sum()\<close>: one entry per distinct key, the keys in
  ascending order (\<open>groupby\<close> sorts them), each with the sum of the weights of its rows.
  The sum here is the exact sum of the weights. pandas adds float64 values, and what
  rounding does to the last bits of a sum is outside this model: the sums serve to say
  which rows a value is computed from and in which order the entries come.
\<close>

definition groupby_sum :: "(sale \<Rightarrow> pystr) \<Rightarrow> sale list \<Rightarrow> (pystr \<times> real) list" where
  "groupby_sum key df =
     map (\<lambda>k. (k, sum_list (map NetWeightKGs (filter (\<lambda>r. key r = k) df))))
         (sort (remdups (map key df)))"

text \<open>
  \<open>.sort_values(ascending=False)\<close>: the entries by descending value, each key staying
  with its value. Entries of equal value keep their order here; pandas leaves that order
  open.
\<close>

definition sort_values_desc :: "(pystr \<times> real) list \<Rightarrow> (pystr \<times> real) list" where
  "sort_values_desc s = sort_key (\<lambda>p. - snd p) s"

text \<open>\<open>.reindex(labels)\<close>: the entries in the order of \<open>labels\<close>; a label the series lacks gets NaN, here \<open>None\<close>.\<close>

definition reindex :: "pystr list \<Rightarrow> (pystr \<times> real) list \<Rightarrow> (pystr \<times> real option) list" where
  "reindex labels s = map (\<lambda>k. (k, map_of s k)) labels"

datatype chart_kind = Bar | Line

record 'v chart =
  kind :: chart_kind
  title :: string
  chart_x :: "pystr list"
  chart_y :: "'v list"

text \<open>\<open>px.bar\<close> and \<open>px.line\<close> of a frame with a key column and a value column.\<close>

definition px_bar :: "(pystr \<times> 'v) list \<Rightarrow> string \<Rightarrow> 'v chart" where
  "px_bar frame t = \<lparr>kind = Bar, title = t, chart_x = map fst frame, chart_y = map snd frame\<rparr>"

definition px_line :: "(pystr \<times> 'v) list \<Rightarrow> string \<Rightarrow> 'v chart" where
  "px_line frame t = \<lparr>kind = Line, title = t, chart_x = map fst frame, chart_y = map snd frame\<rparr>"

definition fig_channel :: "sale list \<Rightarrow> real chart" where
  "fig_channel df =
     px_bar (sort_values_desc (groupby_sum ChannelName df)) ''Sales Volume by Channel (KGs)''"

definition month_order :: "sale list \<Rightarrow> pystr list" where
  "month_order df = sort (unique (map Month df))"

definition fig_month :: "sale list \<Rightarrow> real option chart" where
  "fig_month df =
     px_line (reindex (month_order df) (groupby_sum Month df)) ''Monthly Sales Trend (KGs)''"

definition fig_salescat :: "sale list \<Rightarrow> real chart" where
  "fig_salescat df = px_bar (groupby_sum SalesCategory df) ''Sales Category Breakdown (KGs)''"

definition fig_product :: "sale list \<Rightarrow> real chart" where
  "fig_product df = px_bar (groupby_sum ProductName df) ''Products Ranked by Sales Weight''"

subsection \<open>The interactive dashboard\<close>

record trace =
  trace_name :: string
  trace_x :: "pystr list"
  trace_y :: "real list"

record button =
  label :: pystr
  args_x :: "pystr list list"
  args_y :: "real list list"

record figure =
  traces :: "trace list"
  buttons :: "button list"

definition unique_months :: "sale list \<Rightarrow> pystr list" where
  "unique_months df = sort (unique (map Month df))"

definition filter_month :: "sale list \<Rightarrow> pystr \<Rightarrow> sale list" where
  "filter_month df m = filter (\<lambda>r. Month r = m) df"

text \<open>
  The two arrays every filtered panel is given, as the script writes them:
  \<open>x = d.groupby(key)[...].sum().index\<close>, the keys in ascending key order, and
  \<open>y = d.groupby(key)[...].sum().sort_values(ascending=False).values\<close>, the sums in
  descending order of value.
\<close>

definition panel_x :: "(sale \<Rightarrow> pystr) \<Rightarrow> sale list \<Rightarrow> pystr list" where
  "panel_x key d = map fst (groupby_sum key d)"

definition panel_y :: "(sale \<Rightarrow> pystr) \<Rightarrow> sale list \<Rightarrow> real list" where
  "panel_y key d = map snd (sort_values_desc (groupby_sum key d))"

definition month_button :: "sale list \<Rightarrow> pystr \<Rightarrow> button" where
  "month_button df m =
     (let dff = filter_month df m
      in \<lparr>label = m,
          args_x = [panel_x ChannelName dff, panel_x SalesCategory dff, panel_x ProductName dff,
                    map fst (groupby_sum Month df)],
          args_y = [panel_y ChannelName dff, panel_y SalesCategory dff, panel_y ProductName dff,
                    map snd (groupby_sum Month df)]\<rparr>)"

text \<open>
  The figure with its four traces and one button per month. \<open>unique_months[0]\<close> raises
  \<open>IndexError\<close> on an empty list.
\<close>

definition fig_filtered :: "sale list \<Rightarrow> py_error + figure" where
  "fig_filtered df =
     (case unique_months df of
        [] \<Rightarrow> Inl IndexError
      | m0 # _ \<Rightarrow>
          (let initial = filter_month df m0
           in Inr \<lparr>traces =
                     [\<lparr>trace_name = ''Channel'', trace_x = panel_x ChannelName initial,
                        trace_y = panel_y ChannelName initial\<rparr>,
                      \<lparr>trace_name = ''SalesCategory'', trace_x = panel_x SalesCategory initial,
                        trace_y = panel_y SalesCategory initial\<rparr>,
                      \<lparr>trace_name = ''Product'', trace_x = panel_x ProductName initial,
                        trace_y = panel_y ProductName initial\<rparr>,
                      \<lparr>trace_name = ''Trend'', trace_x = map fst (groupby_sum Month df),
                        trace_y = map snd (groupby_sum Month df)\<rparr>],
                   buttons = map (month_button df) (unique_months df)\<rparr>))"

text \<open>
  What a button with \<open>method="update"\<close> does when it is chosen: the i-th array of
  \<open>x\<close> and of \<open>y\<close> in its arguments replaces the data of the i-th trace.
\<close>

fun restyle :: "trace list \<Rightarrow> pystr list list \<Rightarrow> real list list \<Rightarrow> trace list" where
  "restyle (t # ts) (x # xs) (y # ys) = t\<lparr>trace_x := x, trace_y := y\<rparr> # restyle ts xs ys"
| "restyle ts _ _ = ts"

definition select_month :: "figure \<Rightarrow> button \<Rightarrow> figure" where
  "select_month fig b = fig\<lparr>traces := restyle (traces fig) (args_x b) (args_y b)\<rparr>"

text \<open>The whole section of the script that builds the dashboards, in its order.\<close>

record dashboards =
  channel_sales :: "real chart"
  month_trend :: "real option chart"
  sales_category :: "real chart"
  product_sales :: "real chart"
  interactive_dashboard :: figure

definition build_dashboards :: "sale list \<Rightarrow> py_error + dashboards" where
  "build_dashboards df =
     (let c = fig_channel df; m = fig_month df; s = fig_salescat df; p = fig_product df
      in case fig_filtered df of
           Inl e \<Rightarrow> Inl e
         | Inr f \<Rightarrow> Inr \<lparr>channel_sales = c, month_trend = m, sales_category = s,
                         product_sales = p, interactive_dashboard = f\<rparr>)"

text \<open>A row for the examples: a channel, a month and a weight, the other fields fixed.\<close>

definition sample_sale :: "string \<Rightarrow> string \<Rightarrow> real \<Rightarrow> sale" where
  "sample_sale c m w =
     \<lparr>ChannelName = py c, SalesCategory = py ''S'', ProductName = py ''P'', Month = py m,
      NetWeightKGs = w\<rparr>"

section \<open>The table the cleaning stage works on\<close>

text \<open>
  A cell of a data frame: a missing value (\<open>NaN\<close>, which also stands for \<open>NaT\<close>), a
  text, a number, a timestamp, or a date without time (what \<open>.dt.date\<close> yields).
  Numbers are exact reals, as above. A timestamp is kept as its calendar fields.
\<close>

record date =
  year :: nat
  month :: nat
  day :: nat

record datetime =
  on_date :: date
  time_of_day :: nat

datatype cell = NaN | Str pystr | Num real | Timestamp datetime | DateOnly date

text \<open>
  A data frame: its column labels in order, and its rows, each a list of cells in the
  order of the columns. Labels may repeat.
\<close>

record table =
  columns :: "pystr list"
  rows :: "cell list list"

definition wf_table :: "table \<Rightarrow> bool" where
  "wf_table t \<longleftrightarrow> (\<forall>r \<in> set (rows t). length r = length (columns t))"

text \<open>The cell of row \<open>r\<close> under the first column labelled \<open>c\<close>.\<close>

definition get :: "pystr list \<Rightarrow> cell list \<Rightarrow> pystr \<Rightarrow> cell" where
  "get cols r c = (case map_of (zip cols r) c of Some v \<Rightarrow> v | None \<Rightarrow> NaN)"

definition column :: "table \<Rightarrow> pystr \<Rightarrow> cell list" where
  "column t c = map (\<lambda>r. get (columns t) r c) (rows t)"

text \<open>
  \<open>df[c] = values\<close>, row by row: every column labelled \<open>c\<close> takes the new value; when
  there is none, a new column is appended on the right.
\<close>

definition put :: "pystr list \<Rightarrow> pystr \<Rightarrow> cell \<Rightarrow> cell list \<Rightarrow> cell list" where
  "put cols c v r =
     (if c \<in> set cols then map2 (\<lambda>n x. if n = c then v else x) cols r else r @ [v])"

definition with_label :: "pystr list \<Rightarrow> pystr \<Rightarrow> pystr list" where
  "with_label cols c = (if c \<in> set cols then cols else cols @ [c])"

definition assign :: "pystr \<Rightarrow> (cell list \<Rightarrow> cell) \<Rightarrow> table \<Rightarrow> table" where
  "assign c h t =
     \<lparr>columns = with_label (columns t) c,
      rows = map (\<lambda>r. put (columns t) c (h r) r) (rows t)\<rparr>"

section \<open>What the script takes from pandas\<close>

text \<open>
  The parsers and printers of pandas are not part of this program. They are parameters:
  \<^item> \<open>datetime_of_str column s\<close>: what \<open>pd.to_datetime(..., errors="coerce")\<close> makes of
    the text \<open>s\<close> in that column (the column matters: the format is guessed from it),
    \<open>None\<close> for \<open>NaT\<close>;
  \<^item> \<open>datetime_of_num x\<close>: the same for a number;
  \<^item> \<open>number_of_str s\<close>: what \<open>pd.to_numeric(..., errors="coerce")\<close> makes of a text,
    \<open>None\<close> for \<open>NaN\<close>; \<open>number_of_time\<close>: the same for a timestamp or a date;
  \<^item> \<open>str_of column v\<close>: how \<open>astype(str)\<close> prints a number, timestamp or date;
  \<^item> \<open>astype_str_keeps_nan\<close>: whether \<open>astype(str)\<close> leaves a missing value missing
    (pandas 3) or prints it as the text \<open>nan\<close> (pandas 1 and 2).
\<close>

record pandas =
  datetime_of_str :: "cell list \<Rightarrow> pystr \<Rightarrow> datetime option"
  datetime_of_num :: "real \<Rightarrow> datetime option"
  number_of_str :: "pystr \<Rightarrow> real option"
  number_of_time :: "cell \<Rightarrow> real option"
  str_of :: "cell list \<Rightarrow> cell \<Rightarrow> pystr"
  astype_str_keeps_nan :: bool

definition of_option :: "('a \<Rightarrow> cell) \<Rightarrow> 'a option \<Rightarrow> cell" where
  "of_option C x = (case x of Some v \<Rightarrow> C v | None \<Rightarrow> NaN)"

text \<open>\<open>pd.to_datetime(column, errors="coerce")\<close>, at one cell of the column.\<close>

fun to_datetime :: "pandas \<Rightarrow> cell list \<Rightarrow> cell \<Rightarrow> cell" where
  "to_datetime P col NaN = NaN"
| "to_datetime P col (Str s) = of_option Timestamp (datetime_of_str P col s)"
| "to_datetime P col (Num x) = of_option Timestamp (datetime_of_num P x)"
| "to_datetime P col (Timestamp t) = Timestamp t"
| "to_datetime P col (DateOnly d) = Timestamp \<lparr>on_date = d, time_of_day = 0\<rparr>"

text \<open>\<open>pd.to_numeric(column, errors="coerce")\<close>, at one cell.\<close>

fun to_numeric :: "pandas \<Rightarrow> cell \<Rightarrow> cell" where
  "to_numeric P NaN = NaN"
| "to_numeric P (Str s) = of_option Num (number_of_str P s)"
| "to_numeric P (Num x) = Num x"
| "to_numeric P (Timestamp t) = of_option Num (number_of_time P (Timestamp t))"
| "to_numeric P (DateOnly d) = of_option Num (number_of_time P (DateOnly d))"

text \<open>\<open>.fillna(v)\<close>, at one cell.\<close>

fun fillna :: "cell \<Rightarrow> cell \<Rightarrow> cell" where
  "fillna v NaN = v"
| "fillna v c = c"

text \<open>\<open>.astype(str)\<close>, at one cell.\<close>

fun astype_str :: "pandas \<Rightarrow> cell list \<Rightarrow> cell \<Rightarrow> cell" where
  "astype_str P col NaN = (if astype_str_keeps_nan P then NaN else Str (py ''nan''))"
| "astype_str P col (Str s) = Str s"
| "astype_str P col c = Str (str_of P col c)"

text \<open>\<open>.str.strip()\<close>, at one cell: a cell that is not text becomes missing.\<close>

fun str_strip :: "cell \<Rightarrow> cell" where
  "str_strip (Str s) = Str (strip s)"
| "str_strip c = NaN"

text \<open>\<open>.dt.to_period("M").astype(str)\<close> and \<open>.dt.date\<close>, at one cell.\<close>

definition digit :: "nat \<Rightarrow> nat" where
  "digit n = 48 + n mod 10"

definition month_label :: "date \<Rightarrow> pystr" where
  "month_label d =
     [digit (year d div 1000), digit (year d div 100), digit (year d div 10), digit (year d),
      45, digit (month d div 10), digit (month d)]"

fun to_period_M_str :: "cell \<Rightarrow> cell" where
  "to_period_M_str (Timestamp t) = Str (month_label (on_date t))"
| "to_period_M_str c = Str (py ''NaT'')"

fun dt_date :: "cell \<Rightarrow> cell" where
  "dt_date (Timestamp t) = DateOnly (on_date t)"
| "dt_date c = NaN"

section \<open>The cleaning pipeline\<close>

definition required :: "pystr list" where
  "required = [py ''ChannelName'', py ''ProductName'', py ''Date'', py ''NetWeightKGs'',
               py ''ProductCategory'', py ''SalesCategory'']"

text \<open>\<^verbatim>\<open>if col not in df.columns: df[col] = np.nan\<close>\<close>

definition backfill :: "pystr \<Rightarrow> table \<Rightarrow> table" where
  "backfill col t = (if col \<notin> set (columns t) then assign col (\<lambda>r. NaN) t else t)"

text \<open>
  \<open>df[c]\<close> is a series when exactly one column is labelled \<open>c\<close>. With no such column
  it raises \<open>KeyError\<close>. With several it is a data frame, and the call the script
  makes on it next raises the error \<open>e\<close>.
\<close>

definition and_then :: "py_error + 'a \<Rightarrow> ('a \<Rightarrow> py_error + 'b) \<Rightarrow> py_error + 'b" where
  "and_then x f = (case x of Inl e \<Rightarrow> Inl e | Inr v \<Rightarrow> f v)"

definition series :: "table \<Rightarrow> pystr \<Rightarrow> py_error \<Rightarrow> py_error + cell list" where
  "series t c e =
     (if c \<notin> set (columns t) then Inl KeyError
      else if 1 < count_list (columns t) c then Inl e
      else Inr (column t c))"

text \<open>\<open>df[c] = f(df[c])\<close> for a conversion \<open>f\<close> that works on the whole column.\<close>

definition convert :: "pystr \<Rightarrow> py_error \<Rightarrow> (cell list \<Rightarrow> cell \<Rightarrow> cell) \<Rightarrow> table \<Rightarrow> py_error + table" where
  "convert c e f t =
     and_then (series t c e) (\<lambda>col. Inr (assign c (\<lambda>r. f col (get (columns t) r c)) t))"

text \<open>\<^verbatim>\<open>df["Date"] = pd.to_datetime(df["Date"], errors="coerce")\<close>\<close>

definition fix_date :: "pandas \<Rightarrow> table \<Rightarrow> py_error + table" where
  "fix_date P t = convert (py ''Date'') ValueError (to_datetime P) t"

text \<open>\<^verbatim>\<open>df["NetWeightKGs"] = pd.to_numeric(df["NetWeightKGs"], errors="coerce").fillna(0)\<close>\<close>

definition fix_numeric :: "pandas \<Rightarrow> table \<Rightarrow> py_error + table" where
  "fix_numeric P t =
     convert (py ''NetWeightKGs'') TypeError (\<lambda>col v. fillna (Num 0) (to_numeric P v)) t"

text \<open>\<^verbatim>\<open>df[col] = df[col].astype(str).fillna("").str.strip()\<close>\<close>

definition fix_text :: "pandas \<Rightarrow> pystr \<Rightarrow> table \<Rightarrow> py_error + table" where
  "fix_text P c t =
     convert c AttributeError (\<lambda>col v. str_strip (fillna (Str []) (astype_str P col v))) t"

text \<open>\<open>df.dropna(subset=["Date"])\<close>, then the two filters on the names.\<close>

definition dropna_Date :: "table \<Rightarrow> table" where
  "dropna_Date t = t\<lparr>rows := filter (\<lambda>r. get (columns t) r (py ''Date'') \<noteq> NaN) (rows t)\<rparr>"

definition drop_empty :: "pystr \<Rightarrow> table \<Rightarrow> table" where
  "drop_empty c t = t\<lparr>rows := filter (\<lambda>r. get (columns t) r c \<noteq> Str []) (rows t)\<rparr>"

text \<open>\<open>df.drop_duplicates()\<close>: a row equal to an earlier row is dropped.\<close>

fun keep_first :: "'a list \<Rightarrow> 'a list" where
  "keep_first [] = []"
| "keep_first (x # xs) = x # keep_first (filter (\<lambda>y. y \<noteq> x) xs)"

definition drop_duplicates :: "table \<Rightarrow> table" where
  "drop_duplicates t = t\<lparr>rows := keep_first (rows t)\<rparr>"

text \<open>The derived fields \<open>Month\<close> and \<open>Day\<close>.\<close>

definition derive :: "table \<Rightarrow> table" where
  "derive t =
     (let t1 = assign (py ''Month'') (\<lambda>r. to_period_M_str (get (columns t) r (py ''Date''))) t
      in assign (py ''Day'') (\<lambda>r. dt_date (get (columns t1) r (py ''Date''))) t1)"

text \<open>The cleaning pipeline, from the normalized table to the cleaned table.\<close>

definition clean :: "pandas \<Rightarrow> table \<Rightarrow> py_error + table" where
  "clean P df =
     and_then (fix_date P (fold backfill required df)) (\<lambda>df.
     and_then (fix_numeric P df) (\<lambda>df.
     and_then (fix_text P (py ''ChannelName'') df) (\<lambda>df.
     and_then (fix_text P (py ''ProductCategory'') df) (\<lambda>df.
     and_then (fix_text P (py ''ProductName'') df) (\<lambda>df.
     and_then (fix_text P (py ''SalesCategory'') df) (\<lambda>df.
     Inr (derive (drop_duplicates
            (drop_empty (py ''ChannelName'') (drop_empty (py ''ProductName'') (dropna_Date df)))))))))))"

text \<open>
  A pandas that parses nothing but the texts these theories use as examples:
  the date \<open>2024-01-05\<close> and the number \<open>5\<close>.
\<close>

definition sample_pandas :: "bool \<Rightarrow> pandas" where
  "sample_pandas keeps_nan =
     \<lparr>datetime_of_str = (\<lambda>col s. if s = py ''2024-01-05''
                                  then Some \<lparr>on_date = \<lparr>year = 2024, month = 1, day = 5\<rparr>, time_of_day = 0\<rparr>
                                  else None),
      datetime_of_num = (\<lambda>x. None),
      number_of_str = (\<lambda>s. if s = py ''5'' then Some 5 else None),
      number_of_time = (\<lambda>c. None),
      str_of = (\<lambda>col c. py ''?''),
      astype_str_keeps_nan = keeps_nan\<rparr>"

section \<open>What holds of a row of the cleaned table\<close>

text \<open>
  A row is read through its lookup \<open>get (columns t) r\<close>, from a label to the cell under
  it. \<open>all_rows t Q\<close>: the lookup of every row satisfies \<open>Q\<close>.
\<close>

definition all_rows :: "table \<Rightarrow> ((pystr \<Rightarrow> cell) \<Rightarrow> bool) \<Rightarrow> bool" where
  "all_rows t Q \<longleftrightarrow> (\<forall>r \<in> set (rows t). Q (get (columns t) r))"

definition trimmed :: "pystr \<Rightarrow> bool" where
  "trimmed s \<longleftrightarrow> (s \<noteq> [] \<longrightarrow> \<not> isspace (hd s) \<and> \<not> isspace (last s))"

definition is_text :: "cell \<Rightarrow> bool" where
  "is_text v = (case v of Str s \<Rightarrow> strip s = s | _ \<Rightarrow> False)"

definition is_number :: "cell \<Rightarrow> bool" where
  "is_number v = (case v of Num x \<Rightarrow> True | _ \<Rightarrow> False)"

definition is_timestamp :: "cell \<Rightarrow> bool" where
  "is_timestamp v = (case v of Timestamp d \<Rightarrow> True | _ \<Rightarrow> False)"

definition text_columns :: "pystr list" where
  "text_columns = [py ''ChannelName'', py ''ProductCategory'', py ''ProductName'', py ''SalesCategory'']"

text \<open>After the three conversions: the date parsed or missing, the weight a number, the four texts trimmed.\<close>

definition converted :: "(pystr \<Rightarrow> cell) \<Rightarrow> bool" where
  "converted g \<longleftrightarrow>
     (g (py ''Date'') = NaN \<or> is_timestamp (g (py ''Date''))) \<and>
     is_number (g (py ''NetWeightKGs'')) \<and>
     (\<forall>c \<in> set text_columns. is_text (g c))"

text \<open>After the filters and the derivation.\<close>

definition cleaned :: "(pystr \<Rightarrow> cell) \<Rightarrow> bool" where
  "cleaned g \<longleftrightarrow>
     is_timestamp (g (py ''Date'')) \<and>
     g (py ''Month'') = to_period_M_str (g (py ''Date'')) \<and>
     g (py ''Day'') = dt_date (g (py ''Date'')) \<and>
     is_number (g (py ''NetWeightKGs'')) \<and>
     (\<forall>c \<in> set text_columns. is_text (g c)) \<and>
     g (py ''ProductName'') \<noteq> Str [] \<and> g (py ''ChannelName'') \<noteq> Str []"

text \<open>The lookups of all rows of a table.\<close>

definition lookups :: "table \<Rightarrow> (pystr \<Rightarrow> cell) set" where
  "lookups t = get (columns t) ` set (rows t)"

text \<open>A table with four of the required columns, for the examples.\<close>

definition sample_table :: "cell list list \<Rightarrow> table" where
  "sample_table rs =
     \<lparr>columns = [py ''ChannelName'', py ''ProductName'', py ''Date'', py ''NetWeightKGs''], rows = rs\<rparr>"

section \<open>Properties of the schema normalizer\<close>

lemma clean_cols_lookup:
  "clean_cols U acc cols c = (if c \<in> set cols then Some (canonical U c) else acc c)"
  by (induction cols arbitrary: acc) auto

lemma normalize_columns_map: "normalize_columns U raw = map (normalize_header U) raw"
  by (simp add: normalize_columns_def rename_columns_def clean_cols_lookup normalize_header_def)

lemmas normalizer_defs =
  normalize_header_def canonical_def key_of_def lower_def fix_column_name_def strip_def
  isspace_def remove_char_def py_def ascii_lower_def rename_map_def

lemma rename_map_key: "(k, c) \<in> set rename_map \<Longrightarrow> key_of U c = k"
  by (auto simp add: rename_map_def key_of_def lower_def remove_char_def py_def ascii_lower_def)

lemma fix_column_name_filter:
  "fix_column_name h = filter (\<lambda>x. x \<noteq> 160 \<and> x \<noteq> 65279) (strip h)"
  by (simp add: fix_column_name_def remove_char_def conj_commute)

lemma canonical_names_ascii:
  "c \<in> py ` {''ChannelName'', ''ProductCategory'', ''Date'', ''ProductName'',
              ''NetWeightKGs'', ''SalesCategory'', ''PaymentType'', ''CustomerName''}
   \<Longrightarrow> 65279 \<notin> set c \<and> 160 \<notin> set c"
  by (auto simp add: py_def)

text \<open>
  Claim C4, as the code has it. Take the raw headers of a table and the header at
  position \<open>i\<close>. Step 2 trims it of surrounding whitespace and then deletes every
  byte-order mark (65279) and every non-breaking space (160), in that order; its
  normalized key is the key of what is left.
  \<^item> When the fixed mapping table has that key, the header of the normalized table at
    position \<open>i\<close> is the canonical name the table gives: one of the eight canonical
    names, and the one whose own key is that key.
  \<^item> When the table has no such key, the header is not renamed: it comes out as what
    step 2 left, the trimmed header without its byte-order marks and non-breaking spaces.
  \<^item> Either way no header of the normalized table holds a byte-order mark or a
    non-breaking space.
  The headers \<open>" Channel Name "\<close> and \<open>"Net_Weight_KGs"\<close> become \<open>ChannelName\<close> and
  \<open>NetWeightKGs\<close>. A header \<open>Date\<close> behind a byte-order mark becomes \<open>Date\<close>, and
  non-breaking spaces inside or around a known name do not hide it. Because the trim comes
  first, a space behind a leading byte-order mark stays: the unmatched header made of a
  byte-order mark and \<open>" Batch"\<close> comes out as \<open>" Batch"\<close>. All this holds whatever
  the Unicode case tables \<open>U\<close> are.
\<close>

theorem C4_known_headers_renamed:
  "(i < length raw \<longrightarrow>
      (case map_of rename_map (key_of U (fix_column_name (raw ! i))) of
         Some c \<Rightarrow> normalize_columns U raw ! i = c \<and>
                   c \<in> py ` {''ChannelName'', ''ProductCategory'', ''Date'', ''ProductName'',
                               ''NetWeightKGs'', ''SalesCategory'', ''PaymentType'', ''CustomerName''} \<and>
                   key_of U c = key_of U (fix_column_name (raw ! i))
       | None \<Rightarrow> normalize_columns U raw ! i
                  = filter (\<lambda>x. x \<noteq> 160 \<and> x \<noteq> 65279) (strip (raw ! i))) \<and>
      fix_column_name (raw ! i) = filter (\<lambda>x. x \<noteq> 160 \<and> x \<noteq> 65279) (strip (raw ! i)) \<and>
      65279 \<notin> set (normalize_columns U raw ! i) \<and> 160 \<notin> set (normalize_columns U raw ! i)) \<and>
   normalize_columns U [py '' Channel Name '', py ''Net_Weight_KGs'']
     = [py ''ChannelName'', py ''NetWeightKGs''] \<and>
   normalize_columns U [65279 # py ''Date'', py ''Channel'' @ [160] @ py ''Name'',
                        [160] @ py ''net weight kgs'' @ [160, 32]]
     = [py ''Date'', py ''ChannelName'', py ''NetWeightKGs''] \<and>
   normalize_columns U [65279 # py '' Batch'', py ''Batch'' @ [160] @ py ''No'']
     = [py '' Batch'', py ''BatchNo'']"
proof (intro conjI impI)
  assume i: "i < length raw"
  let ?h = "fix_column_name (raw ! i)"
  let ?eight = "py ` {''ChannelName'', ''ProductCategory'', ''Date'', ''ProductName'',
                               ''NetWeightKGs'', ''SalesCategory'', ''PaymentType'', ''CustomerName''}"
  show f: "?h = filter (\<lambda>x. x \<noteq> 160 \<and> x \<noteq> 65279) (strip (raw ! i))"
    by (rule fix_column_name_filter)
  have cases: "(case map_of rename_map (key_of U ?h) of
         Some c \<Rightarrow> normalize_columns U raw ! i = c \<and> c \<in> ?eight \<and> key_of U c = key_of U ?h
       | None \<Rightarrow> normalize_columns U raw ! i = ?h)"
  proof (cases "map_of rename_map (key_of U ?h)")
    case None
    with i show ?thesis
      by (simp add: normalize_columns_map normalize_header_def canonical_def)
  next
    case (Some c)
    then have mem: "(key_of U ?h, c) \<in> set rename_map"
      by (rule map_of_SomeD)
    have "normalize_columns U raw ! i = c"
      using i Some by (simp add: normalize_columns_map normalize_header_def canonical_def)
    moreover have "c \<in> ?eight"
      using mem by (auto simp add: rename_map_def)
    moreover have "key_of U c = key_of U ?h"
      using mem by (rule rename_map_key)
    ultimately show ?thesis using Some by simp
  qed
  then show "case map_of rename_map (key_of U ?h) of
         Some c \<Rightarrow> normalize_columns U raw ! i = c \<and> c \<in> ?eight \<and> key_of U c = key_of U ?h
       | None \<Rightarrow> normalize_columns U raw ! i
                  = filter (\<lambda>x. x \<noteq> 160 \<and> x \<noteq> 65279) (strip (raw ! i))"
    using f by (simp split: option.splits)
  have clean: "65279 \<notin> set (normalize_columns U raw ! i) \<and> 160 \<notin> set (normalize_columns U raw ! i)"
  proof (cases "map_of rename_map (key_of U ?h)")
    case None
    with cases have "normalize_columns U raw ! i = ?h" by simp
    then show ?thesis by (simp add: fix_column_name_filter)
  next
    case (Some c)
    with cases have "normalize_columns U raw ! i = c" and "c \<in> ?eight" by simp_all
    then show ?thesis using canonical_names_ascii[of c] by simp
  qed
  from clean show "65279 \<notin> set (normalize_columns U raw ! i)" by simp
  from clean show "160 \<notin> set (normalize_columns U raw ! i)" by simp
next
  show "normalize_columns U [py '' Channel Name '', py ''Net_Weight_KGs'']
     = [py ''ChannelName'', py ''NetWeightKGs'']"
    by (simp add: normalize_columns_map normalizer_defs)
next
  show "normalize_columns U [65279 # py ''Date'', py ''Channel'' @ [160] @ py ''Name'',
                        [160] @ py ''net weight kgs'' @ [160, 32]]
     = [py ''Date'', py ''ChannelName'', py ''NetWeightKGs'']"
    by (simp add: normalize_columns_map normalizer_defs)
next
  show "normalize_columns U [65279 # py '' Batch'', py ''Batch'' @ [160] @ py ''No'']
     = [py '' Batch'', py ''BatchNo'']"
    by (simp add: normalize_columns_map normalizer_defs)
qed

theorem C4_known_headers_renamed_witness:
  "(0::nat) < length [65279 # py ''channel_NAME '', py '' Batch'' @ [160] @ py ''No ''] \<and>
   map_of rename_map (key_of (\<lambda>s. s)
      (fix_column_name ([65279 # py ''channel_NAME '', py '' Batch'' @ [160] @ py ''No ''] ! 0)))
     = Some (py ''ChannelName'') \<and>
   normalize_columns (\<lambda>s. s) [65279 # py ''channel_NAME '', py '' Batch'' @ [160] @ py ''No ''] ! 0
     = py ''ChannelName'' \<and>
   (1::nat) < length [65279 # py ''channel_NAME '', py '' Batch'' @ [160] @ py ''No ''] \<and>
   map_of rename_map (key_of (\<lambda>s. s)
      (fix_column_name ([65279 # py ''channel_NAME '', py '' Batch'' @ [160] @ py ''No ''] ! 1)))
     = None \<and>
   normalize_columns (\<lambda>s. s) [65279 # py ''channel_NAME '', py '' Batch'' @ [160] @ py ''No ''] ! 1
     = py ''BatchNo''"
  using C4_known_headers_renamed [of 0 "[65279 # py ''channel_NAME '', py '' Batch'' @ [160] @ py ''No '']" "\<lambda>s. s"]
        C4_known_headers_renamed [of 1 "[65279 # py ''channel_NAME '', py '' Batch'' @ [160] @ py ''No '']" "\<lambda>s. s"]
  by (simp add: normalizer_defs)

text \<open>
  Claim C4 as stated fails in its last part: a header with no matching key is not left
  unchanged when it has surrounding whitespace. \<open>" Batch No "\<close> has no key in the
  table and comes out as \<open>"Batch No"\<close>.
\<close>

theorem C4_unmatched_header_trimmed:
  "map_of rename_map (key_of id (fix_column_name (py '' Batch No ''))) = None \<and>
   normalize_columns id [py '' Batch No ''] = [py ''Batch No''] \<and>
   py ''Batch No'' \<noteq> py '' Batch No ''"
  by (simp add: normalize_columns_map normalizer_defs)

text \<open>
  Claim C10. When the raw headers at two different positions have the same normalized
  key and the mapping table knows it, the normalized table has as many columns as the
  raw one (nothing is merged, nothing is refused: the function has no error result),
  both positions carry the same canonical name, and so the column names are no longer
  distinct. The headers \<open>" Channel Name "\<close> and \<open>"channel_name"\<close> both become
  \<open>ChannelName\<close>.
\<close>

theorem C10_colliding_headers_duplicated:
  assumes "i < length raw" and "j < length raw" and "i \<noteq> j"
    and "map_of rename_map (key_of U (fix_column_name (raw ! i))) = Some c"
    and "key_of U (fix_column_name (raw ! j)) = key_of U (fix_column_name (raw ! i))"
  shows "length (normalize_columns U raw) = length raw \<and>
         normalize_columns U raw ! i = c \<and> normalize_columns U raw ! j = c \<and>
         \<not> distinct (normalize_columns U raw)"
proof -
  have len: "length (normalize_columns U raw) = length raw"
    by (simp add: normalize_columns_map)
  have ci: "normalize_columns U raw ! i = c"
    using assms(1,4) by (simp add: normalize_columns_map normalize_header_def canonical_def)
  have cj: "normalize_columns U raw ! j = c"
    using assms(2,4,5) by (simp add: normalize_columns_map normalize_header_def canonical_def)
  have "\<not> distinct (normalize_columns U raw)"
    using assms(1,2,3) len ci cj by (auto simp add: distinct_conv_nth)
  with len ci cj show ?thesis by simp
qed

theorem C10_colliding_headers_duplicated_witness:
  "normalize_columns (\<lambda>s. s) [py '' Channel Name '', py ''channel_name'']
     = [py ''ChannelName'', py ''ChannelName''] \<and>
   \<not> distinct (normalize_columns (\<lambda>s. s) [py '' Channel Name '', py ''channel_name''])"
proof -
  let ?raw = "[py '' Channel Name '', py ''channel_name'']"
  have k0: "map_of rename_map (key_of (\<lambda>s. s) (fix_column_name (?raw ! 0))) = Some (py ''ChannelName'')"
    by (simp add: normalizer_defs)
  have k1: "key_of (\<lambda>s. s) (fix_column_name (?raw ! 1)) = key_of (\<lambda>s. s) (fix_column_name (?raw ! 0))"
    by (simp add: normalizer_defs)
  have "length (normalize_columns (\<lambda>s. s) ?raw) = length ?raw \<and>
        normalize_columns (\<lambda>s. s) ?raw ! 0 = py ''ChannelName'' \<and>
        normalize_columns (\<lambda>s. s) ?raw ! 1 = py ''ChannelName'' \<and>
        \<not> distinct (normalize_columns (\<lambda>s. s) ?raw)"
    by (rule C10_colliding_headers_duplicated [OF _ _ _ k0 k1]) simp_all
  then show ?thesis
    by (simp add: normalize_columns_map)
qed

section \<open>Properties of the aggregations and charts\<close>

lemma set_unique: "set (unique xs) = set xs" by (simp add: unique_def)
lemma distinct_unique: "distinct (unique xs)" by (simp add: unique_def)

lemma sort_unique_eq: "sort (unique xs) = sort (remdups xs)"
  by (rule properties_for_sort) (auto simp: set_unique distinct_unique set_eq_iff_mset_eq_distinct[symmetric])

lemma keys_reindex: "map fst (reindex labels s) = labels"
  by (simp add: reindex_def comp_def)

lemma keys_groupby_sum: "map fst (groupby_sum key df) = sort (remdups (map key df))"
  by (simp add: groupby_sum_def comp_def)

lemma fig_filtered_Inr:
  "fig_filtered df = Inr fig \<Longrightarrow>
     buttons fig = map (month_button df) (unique_months df) \<and>
     length (traces fig) = 4 \<and>
     trace_x (traces fig ! 3) = map fst (groupby_sum Month df) \<and>
     trace_y (traces fig ! 3) = map snd (groupby_sum Month df)"
  by (auto simp add: fig_filtered_def Let_def split: list.splits)

lemma set_unique_months: "set (unique_months df) = Month ` set df"
  by (simp add: unique_months_def set_unique)

lemma months_nonempty: "df \<noteq> [] \<Longrightarrow> unique_months df \<noteq> []"
  using set_unique_months[of df] by (cases df) auto

text \<open>
  Claim C6. For every cleaned table the x-axis of the Month-trend chart is the sorted
  list of the distinct \<open>Month\<close> labels of the table: it is in ascending lexical order,
  has no label twice and holds exactly the labels that occur. The weights play no part.
  A table whose rows carry the months \<open>2024-02\<close> and \<open>2024-01\<close>, with any weights,
  gives the axis \<open>2024-01\<close>, \<open>2024-02\<close>.
\<close>

theorem C6_month_axis_chronological:
  "chart_x (fig_month df) = sort (remdups (map Month df)) \<and>
   sorted (chart_x (fig_month df)) \<and> distinct (chart_x (fig_month df)) \<and>
   set (chart_x (fig_month df)) = Month ` set df \<and>
   chart_x (fig_month
      [\<lparr>ChannelName = c1, SalesCategory = s1, ProductName = p1, Month = py ''2024-02'', NetWeightKGs = w1\<rparr>,
       \<lparr>ChannelName = c2, SalesCategory = s2, ProductName = p2, Month = py ''2024-01'', NetWeightKGs = w2\<rparr>])
     = [py ''2024-01'', py ''2024-02'']"
proof -
  have x: "chart_x (fig_month df') = sort (remdups (map Month df'))" for df'
    by (simp add: fig_month_def px_line_def keys_reindex month_order_def sort_unique_eq)
  show ?thesis
    unfolding x by (simp add: py_def)
qed

text \<open>
  Claim C8. Take the interactive dashboard of a cleaned table and any of its buttons.
  The button is for a month of the table. Choosing it leaves four traces; the x and y
  arrays of the first three become the key list and the value list computed from the
  rows of that month alone; the fourth trace, the trend, is the trace it was before, and
  its x and y arrays are the keys and sums of the Month aggregation over the whole
  table.
\<close>

theorem C8_selector_keeps_trend:
  assumes "fig_filtered df = Inr fig" and "b \<in> set (buttons fig)"
  shows "label b \<in> Month ` set df \<and>
         length (traces (select_month fig b)) = 4 \<and>
         map trace_x (take 3 (traces (select_month fig b))) =
           [panel_x ChannelName (filter_month df (label b)),
            panel_x SalesCategory (filter_month df (label b)),
            panel_x ProductName (filter_month df (label b))] \<and>
         map trace_y (take 3 (traces (select_month fig b))) =
           [panel_y ChannelName (filter_month df (label b)),
            panel_y SalesCategory (filter_month df (label b)),
            panel_y ProductName (filter_month df (label b))] \<and>
         traces (select_month fig b) ! 3 = traces fig ! 3 \<and>
         trace_x (traces (select_month fig b) ! 3) = map fst (groupby_sum Month df) \<and>
         trace_y (traces (select_month fig b) ! 3) = map snd (groupby_sum Month df)"
proof -
  from assms have "b \<in> month_button df ` set (unique_months df)"
    by (simp add: fig_filtered_Inr)
  then obtain m where m: "m \<in> Month ` set df" and b: "b = month_button df m"
    unfolding set_unique_months by blast
  from assms(1) obtain t0 t1 t2 where
    ts: "traces fig = [t0, t1, t2, \<lparr>trace_name = ''Trend'', trace_x = map fst (groupby_sum Month df),
                        trace_y = map snd (groupby_sum Month df)\<rparr>]"
    by (auto simp add: fig_filtered_def Let_def split: list.splits)
  show ?thesis
    using m by (simp add: b ts select_month_def month_button_def Let_def)
qed

theorem C8_selector_keeps_trend_witness:
  "fig_filtered [sample_sale ''A'' ''2024-01'' 1, sample_sale ''B'' ''2024-02'' 2]
     = Inr (projr (fig_filtered [sample_sale ''A'' ''2024-01'' 1, sample_sale ''B'' ''2024-02'' 2])) \<and>
   buttons (projr (fig_filtered [sample_sale ''A'' ''2024-01'' 1, sample_sale ''B'' ''2024-02'' 2])) ! 1
     \<in> set (buttons (projr (fig_filtered [sample_sale ''A'' ''2024-01'' 1, sample_sale ''B'' ''2024-02'' 2]))) \<and>
   map (\<lambda>t. (trace_x t, trace_y t))
     (traces (select_month
        (projr (fig_filtered [sample_sale ''A'' ''2024-01'' 1, sample_sale ''B'' ''2024-02'' 2]))
        (buttons (projr (fig_filtered [sample_sale ''A'' ''2024-01'' 1, sample_sale ''B'' ''2024-02'' 2])) ! 1)))
     = [([py ''B''], [2]), ([py ''S''], [2]), ([py ''P''], [2]),
        ([py ''2024-01'', py ''2024-02''], [1, 2])]"
proof -
  let ?df = "[sample_sale ''A'' ''2024-01'' 1, sample_sale ''B'' ''2024-02'' 2]"
  let ?fig = "projr (fig_filtered ?df)"
  have um: "unique_months ?df = [py ''2024-01'', py ''2024-02'']"
    by (simp add: unique_months_def unique_def py_def sample_sale_def)
  have h1: "fig_filtered ?df = Inr ?fig"
    by (simp add: fig_filtered_def um Let_def)
  have bs: "buttons ?fig = [month_button ?df (py ''2024-01''), month_button ?df (py ''2024-02'')]"
    by (simp add: fig_filtered_def um Let_def)
  have h2: "buttons ?fig ! 1 \<in> set (buttons ?fig)"
    by (simp add: bs)
  have lb: "label (buttons ?fig ! 1) = py ''2024-02''"
    by (simp add: bs month_button_def Let_def)
  have px: "panel_x ChannelName (filter_month ?df (py ''2024-02'')) = [py ''B'']"
           "panel_x SalesCategory (filter_month ?df (py ''2024-02'')) = [py ''S'']"
           "panel_x ProductName (filter_month ?df (py ''2024-02'')) = [py ''P'']"
           "panel_y ChannelName (filter_month ?df (py ''2024-02'')) = [2]"
           "panel_y SalesCategory (filter_month ?df (py ''2024-02'')) = [2]"
           "panel_y ProductName (filter_month ?df (py ''2024-02'')) = [2]"
    by (simp_all add: panel_x_def panel_y_def filter_month_def groupby_sum_def
          sort_values_desc_def py_def sample_sale_def)
  have gm: "groupby_sum Month ?df = [(py ''2024-01'', 1), (py ''2024-02'', 2)]"
    by (simp add: groupby_sum_def py_def sample_sale_def)
  note r = C8_selector_keeps_trend [OF h1 h2, unfolded lb px gm]
  have len: "length (traces (select_month ?fig (buttons ?fig ! 1))) = 4" using r by simp
  then obtain a b c d where ts: "traces (select_month ?fig (buttons ?fig ! 1)) = [a, b, c, d]"
    by (auto simp add: length_Suc_conv numeral_eq_Suc)
  from r have "map (\<lambda>t. (trace_x t, trace_y t)) (traces (select_month ?fig (buttons ?fig ! 1)))
     = [([py ''B''], [2]), ([py ''S''], [2]), ([py ''P''], [2]),
        ([py ''2024-01'', py ''2024-02''], [1, 2])]"
    unfolding ts by auto
  with h1 h2 show ?thesis by blast
qed

text \<open>
  Claim C7, at a table where it fails. In one month channel \<open>A\<close> sold 1 kg and channel
  \<open>B\<close> sold 2 kg. The Channel panel gets the x array \<open>A, B\<close> (the keys in key
  order) and the y array \<open>2, 1\<close> (the sums in descending order): \<open>A\<close> stands over
  the sum of \<open>B\<close>, while the sums per channel are \<open>A: 1\<close> and \<open>B: 2\<close>.
\<close>

theorem C7_filtered_panel_misaligned:
  "map (\<lambda>t. (trace_x t, trace_y t))
     (take 1 (traces (projr (fig_filtered
        [sample_sale ''A'' ''2024-01'' 1, sample_sale ''B'' ''2024-01'' 2]))))
     = [([py ''A'', py ''B''], [2, 1])] \<and>
   groupby_sum ChannelName
     (filter_month [sample_sale ''A'' ''2024-01'' 1, sample_sale ''B'' ''2024-01'' 2] (py ''2024-01''))
     = [(py ''A'', 1), (py ''B'', 2)]"
  by (simp add: fig_filtered_def unique_months_def unique_def py_def filter_month_def
        panel_x_def panel_y_def groupby_sum_def sort_values_desc_def sample_sale_def)

text \<open>
  Claim C3, at the table where it fails. For a cleaned table with no rows the list of
  months is empty, \<open>unique_months[0]\<close> raises \<open>IndexError\<close>, and the section that
  builds the dashboards ends with that error instead of charts with empty axes.
\<close>

theorem C3_empty_table_raises: "build_dashboards [] = Inl IndexError"
  by (simp add: build_dashboards_def fig_filtered_def unique_months_def unique_def)

section \<open>Properties of the cleaning pipeline\<close>

subsection \<open>Cells and rows\<close>

lemma map_of_zip_map2_same:
  "length r = length cols \<Longrightarrow> c \<in> set cols \<Longrightarrow>
   map_of (zip cols (map2 (\<lambda>n x. if n = c then v else x) cols r)) c = Some v"
  by (induction r cols rule: list_induct2) auto

lemma map_of_zip_map2_other:
  "length r = length cols \<Longrightarrow> c' \<noteq> c \<Longrightarrow>
   map_of (zip cols (map2 (\<lambda>n x. if n = c then v else x) cols r)) c' = map_of (zip cols r) c'"
  by (induction r cols rule: list_induct2) auto

lemma map_of_zip_append_new:
  "length r = length cols \<Longrightarrow> c \<notin> set cols \<Longrightarrow>
   map_of (zip (cols @ [c]) (r @ [v])) c' = (if c' = c then Some v else map_of (zip cols r) c')"
  by (induction r cols rule: list_induct2) auto

lemma columns_assign: "columns (assign c h t) = with_label (columns t) c"
  by (simp add: assign_def)

lemma length_put:
  "length r = length cols \<Longrightarrow> length (put cols c v r) = length (with_label cols c)"
  by (simp add: put_def with_label_def)

lemma get_put_same:
  "length r = length cols \<Longrightarrow> get (with_label cols c) (put cols c v r) c = v"
  by (simp add: get_def put_def with_label_def map_of_zip_map2_same map_of_zip_append_new
        del: zip_append map_of_append)

lemma get_put_other:
  "length r = length cols \<Longrightarrow> c' \<noteq> c \<Longrightarrow>
   get (with_label cols c) (put cols c v r) c' = get cols r c'"
  by (simp add: get_def put_def with_label_def map_of_zip_map2_other map_of_zip_append_new
        del: zip_append map_of_append)

lemma put_same_value:
  "length r = length cols \<Longrightarrow> count_list cols c = 1 \<Longrightarrow> put cols c (get cols r c) r = r"
proof (induction r cols rule: list_induct2)
  case Nil
  then show ?case by simp
next
  case (Cons x r n cols)
  show ?case
  proof (cases "n = c")
    case True
    with Cons.prems have notin: "c \<notin> set cols"
      by (simp add: count_list_0_iff)
    have "map2 (\<lambda>n x. if n = c then v else x) cols r = r" for v
      using Cons.hyps notin by (induction r cols rule: list_induct2) auto
    with True show ?thesis by (simp add: put_def get_def)
  next
    case False
    with Cons.prems have cnt: "count_list cols c = 1" by simp
    then have "c \<in> set cols"
      by (metis count_list_0_iff zero_neq_one)
    with Cons.IH[OF cnt] False show ?thesis
      by (simp add: put_def get_def)
  qed
qed

lemma wf_assign: "wf_table t \<Longrightarrow> wf_table (assign c h t)"
  by (auto simp add: wf_table_def assign_def length_put with_label_def)

lemma assign_id:
  assumes "wf_table t" and "count_list (columns t) c = 1"
    and "\<forall>r \<in> set (rows t). h r = get (columns t) r c"
  shows "assign c h t = t"
proof -
  have "c \<in> set (columns t)"
    using assms(2) by (metis count_list_0_iff zero_neq_one)
  moreover have "map (\<lambda>r. put (columns t) c (h r) r) (rows t) = rows t"
    using assms by (auto simp add: wf_table_def put_same_value intro!: map_idI)
  ultimately show ?thesis by (simp add: assign_def with_label_def)
qed

lemma set_keep_first: "set (keep_first xs) = set xs"
  by (induction xs rule: keep_first.induct) auto

lemma distinct_keep_first: "distinct (keep_first xs)"
  by (induction xs rule: keep_first.induct) (auto simp add: set_keep_first)

lemma keep_first_distinct: "distinct xs \<Longrightarrow> keep_first xs = xs"
proof (induction xs)
  case Nil
  then show ?case by simp
next
  case (Cons a xs)
  then have "filter (\<lambda>y. y \<noteq> a) xs = xs"
    by (auto simp add: filter_id_conv)
  with Cons show ?case by simp
qed

lemma strip_trimmed: "trimmed s \<Longrightarrow> strip s = s"
proof (cases "s = []")
  case True
  then show ?thesis by (simp add: strip_def)
next
  case False
  assume "trimmed s"
  with False have h: "\<not> isspace (hd s)" and l: "\<not> isspace (last s)"
    by (simp_all add: trimmed_def)
  from h False have a: "dropWhile isspace s = s"
    by (simp add: dropWhile_eq_self_iff)
  from l False have b: "dropWhile isspace (rev s) = rev s"
    by (simp add: dropWhile_eq_self_iff hd_rev)
  show ?thesis by (simp add: strip_def a b)
qed

lemma last_dropWhile: "dropWhile P xs \<noteq> [] \<Longrightarrow> last (dropWhile P xs) = last xs"
  by (metis last_appendR takeWhile_dropWhile_id)

lemma trimmed_strip: "trimmed (strip s)"
proof -
  let ?u = "dropWhile isspace s"
  let ?v = "dropWhile isspace (rev ?u)"
  show ?thesis
  proof (cases "?v = []")
    case True
    then show ?thesis by (simp add: strip_def trimmed_def)
  next
    case False
    have u: "?u \<noteq> []"
    proof
      assume e: "?u = []"
      have "?v = dropWhile isspace (rev [])" by (simp only: e)
      with False show False by simp
    qed
    from False have "\<not> isspace (hd ?v)" by (rule hd_dropWhile)
    then have l: "\<not> isspace (last (rev ?v))" using False by (simp add: last_rev)
    have "last ?v = last (rev ?u)" using False by (rule last_dropWhile)
    also have "\<dots> = hd ?u" using u by (simp add: last_rev)
    finally have "hd (rev ?v) = hd ?u" using False by (simp add: hd_rev)
    moreover have "\<not> isspace (hd ?u)" using u by (rule hd_dropWhile)
    ultimately have "\<not> isspace (hd (rev ?v))" by simp
    with l show ?thesis by (simp add: strip_def trimmed_def)
  qed
qed

lemma strip_strip: "strip (strip s) = strip s"
  by (rule strip_trimmed) (rule trimmed_strip)

subsection \<open>The steps of the pipeline\<close>

lemma labels_distinct:
  "distinct [py ''ChannelName'', py ''ProductName'', py ''Date'', py ''NetWeightKGs'',
             py ''ProductCategory'', py ''SalesCategory'', py ''Month'', py ''Day'']"
  by (simp add: py_def)

lemma get_put:
  "length r = length cols \<Longrightarrow> get (with_label cols c) (put cols c v r) = (get cols r)(c := v)"
  by (rule ext) (simp add: get_put_same get_put_other)

lemma all_rows_assign:
  assumes "wf_table t" and "all_rows t Pre"
    and "\<And>r. r \<in> set (rows t) \<Longrightarrow> Pre (get (columns t) r) \<Longrightarrow> Q ((get (columns t) r)(c := h r))"
  shows "all_rows (assign c h t) Q"
  using assms
  by (auto simp add: all_rows_def columns_assign wf_table_def get_put) 
     (auto simp add: assign_def get_put)

lemma mem_count_list: "c \<in> set xs \<longleftrightarrow> 0 < count_list xs c"
  using count_list_0_iff[of xs c] by auto

lemma series_Inr:
  "series t c e = Inr col \<longleftrightarrow> count_list (columns t) c = 1 \<and> col = column t c"
  by (auto simp add: series_def mem_count_list)

lemma convert_Inr:
  "convert c e f t = Inr t' \<longleftrightarrow>
     count_list (columns t) c = 1 \<and>
     t' = assign c (\<lambda>r. f (column t c) (get (columns t) r c)) t"
proof (cases "series t c e")
  case (Inl a)
  then have "count_list (columns t) c \<noteq> 1"
    using series_Inr[of t c e "column t c"] by auto
  with Inl show ?thesis by (simp add: convert_def and_then_def)
next
  case (Inr col)
  then have "count_list (columns t) c = 1" and "col = column t c"
    by (simp_all add: series_Inr)
  with Inr show ?thesis by (auto simp add: convert_def and_then_def)
qed

lemma count1_mem: "count_list xs c = 1 \<Longrightarrow> c \<in> set xs"
  by (metis count_list_0_iff zero_neq_one)

lemma convert_columns: "convert c e f t = Inr t' \<Longrightarrow> columns t' = columns t"
  by (auto simp add: convert_Inr columns_assign with_label_def count1_mem)

lemma convert_wf: "convert c e f t = Inr t' \<Longrightarrow> wf_table t \<Longrightarrow> wf_table t'"
  by (auto simp add: convert_Inr wf_assign)

lemma all_rows_convert:
  assumes "convert c e f t = Inr t'" and "wf_table t" and "all_rows t Pre"
    and "\<And>g ctx. Pre g \<Longrightarrow> Q (g(c := f ctx (g c)))"
  shows "all_rows t' Q"
  using assms by (auto simp add: convert_Inr intro: all_rows_assign)

lemma convert_id:
  assumes "wf_table t" and "count_list (columns t) c = 1"
    and "all_rows t (\<lambda>g. \<forall>ctx. f ctx (g c) = g c)"
  shows "convert c e f t = Inr t"
  using assms by (simp add: convert_Inr all_rows_def assign_id)

lemma set_columns_backfill: "set (columns (backfill c t)) = insert c (set (columns t))"
  by (auto simp add: backfill_def columns_assign with_label_def)

lemma set_columns_fold_backfill:
  "set (columns (fold backfill cs t)) = set cs \<union> set (columns t)"
  by (induction cs arbitrary: t) (auto simp add: set_columns_backfill)

lemma wf_backfill: "wf_table t \<Longrightarrow> wf_table (backfill c t)"
  by (simp add: backfill_def wf_assign)

lemma wf_fold_backfill: "wf_table t \<Longrightarrow> wf_table (fold backfill cs t)"
  by (induction cs arbitrary: t) (auto simp add: wf_backfill)

lemma fold_backfill_id: "set cs \<subseteq> set (columns t) \<Longrightarrow> fold backfill cs t = t"
  by (induction cs arbitrary: t) (auto simp add: backfill_def)

lemma backfill_notin:
  "c' \<notin> set (columns t) \<Longrightarrow> c' \<noteq> c \<Longrightarrow> c' \<notin> set (columns (backfill c t))"
  by (simp add: set_columns_backfill)

lemma label_neq_half:
  "py ''Date'' \<noteq> py ''NetWeightKGs''" "py ''Date'' \<noteq> py ''ChannelName''"
  "py ''Date'' \<noteq> py ''ProductCategory''" "py ''Date'' \<noteq> py ''ProductName''"
  "py ''Date'' \<noteq> py ''SalesCategory''" "py ''Date'' \<noteq> py ''Month''" "py ''Date'' \<noteq> py ''Day''"
  "py ''NetWeightKGs'' \<noteq> py ''ChannelName''" "py ''NetWeightKGs'' \<noteq> py ''ProductCategory''"
  "py ''NetWeightKGs'' \<noteq> py ''ProductName''" "py ''NetWeightKGs'' \<noteq> py ''SalesCategory''"
  "py ''NetWeightKGs'' \<noteq> py ''Month''" "py ''NetWeightKGs'' \<noteq> py ''Day''"
  "py ''ChannelName'' \<noteq> py ''ProductCategory''" "py ''ChannelName'' \<noteq> py ''ProductName''"
  "py ''ChannelName'' \<noteq> py ''SalesCategory''" "py ''ChannelName'' \<noteq> py ''Month''"
  "py ''ChannelName'' \<noteq> py ''Day''"
  "py ''ProductCategory'' \<noteq> py ''ProductName''" "py ''ProductCategory'' \<noteq> py ''SalesCategory''"
  "py ''ProductCategory'' \<noteq> py ''Month''" "py ''ProductCategory'' \<noteq> py ''Day''"
  "py ''ProductName'' \<noteq> py ''SalesCategory''" "py ''ProductName'' \<noteq> py ''Month''"
  "py ''ProductName'' \<noteq> py ''Day''"
  "py ''SalesCategory'' \<noteq> py ''Month''" "py ''SalesCategory'' \<noteq> py ''Day''"
  "py ''Month'' \<noteq> py ''Day''"
  by (simp_all add: py_def)

lemmas label_neq = label_neq_half label_neq_half[symmetric]

lemma text_cell: "is_text (str_strip (fillna (Str []) (astype_str P ctx v)))"
  by (cases v) (auto simp add: strip_strip is_text_def)

lemma date_cell: "to_datetime P ctx v = NaN \<or> is_timestamp (to_datetime P ctx v)"
  by (cases v) (auto simp add: of_option_def is_timestamp_def split: option.splits)

lemma numeric_cell: "is_number (fillna (Num 0) (to_numeric P v))"
  by (cases v) (auto simp add: of_option_def is_number_def split: option.splits)

lemma clean_stages:
  assumes "clean P t = Inr t'"
  obtains t2 t3 t4 t5 t6 t7 where
    "fix_date P (fold backfill required t) = Inr t2"
    "fix_numeric P t2 = Inr t3"
    "fix_text P (py ''ChannelName'') t3 = Inr t4"
    "fix_text P (py ''ProductCategory'') t4 = Inr t5"
    "fix_text P (py ''ProductName'') t5 = Inr t6"
    "fix_text P (py ''SalesCategory'') t6 = Inr t7"
    "t' = derive (drop_duplicates
            (drop_empty (py ''ChannelName'') (drop_empty (py ''ProductName'') (dropna_Date t7))))"
  using assms unfolding clean_def and_then_def
  by (auto split: sum.splits)

lemma all_rows_filter:
  assumes "all_rows t Pre" and "\<And>r. r \<in> set (rows t) \<Longrightarrow> Pre (get (columns t) r) \<Longrightarrow> keep r \<Longrightarrow> Q (get (columns t) r)"
  shows "all_rows (t\<lparr>rows := filter keep (rows t)\<rparr>) Q"
  using assms by (auto simp add: all_rows_def)

lemma all_rows_drop_duplicates: "all_rows (drop_duplicates t) Q = all_rows t Q"
  by (simp add: all_rows_def drop_duplicates_def set_keep_first)

lemma wf_filter: "wf_table t \<Longrightarrow> wf_table (t\<lparr>rows := filter keep (rows t)\<rparr>)"
  by (simp add: wf_table_def)

lemma wf_drop_duplicates: "wf_table t \<Longrightarrow> wf_table (drop_duplicates t)"
  by (simp add: wf_table_def drop_duplicates_def set_keep_first)

lemma converted_rows:
  assumes wf: "wf_table t1"
    and s: "fix_date P t1 = Inr t2"
    "fix_numeric P t2 = Inr t3"
    "fix_text P (py ''ChannelName'') t3 = Inr t4"
    "fix_text P (py ''ProductCategory'') t4 = Inr t5"
    "fix_text P (py ''ProductName'') t5 = Inr t6"
    "fix_text P (py ''SalesCategory'') t6 = Inr t7"
  shows "all_rows t7 converted \<and> wf_table t7 \<and> columns t7 = columns t1"
proof -
  note defs = fix_date_def fix_numeric_def fix_text_def
  have wfs: "wf_table t2" "wf_table t3" "wf_table t4" "wf_table t5" "wf_table t6" "wf_table t7"
    using wf s unfolding defs by (blast intro: convert_wf)+
  have cols: "columns t7 = columns t1"
    using s unfolding defs by (simp add: convert_columns)
  have a1: "all_rows t1 (\<lambda>g. True)" by (simp add: all_rows_def)
  have a2: "all_rows t2 (\<lambda>g. g (py ''Date'') = NaN \<or> is_timestamp (g (py ''Date'')))"
    using s(1) wf a1 unfolding defs
    by (rule all_rows_convert) (use date_cell in simp)
  have a3: "all_rows t3 (\<lambda>g. (g (py ''Date'') = NaN \<or> is_timestamp (g (py ''Date''))) \<and>
                is_number (g (py ''NetWeightKGs'')))"
    using s(2) wfs(1) a2 unfolding defs
    by (rule all_rows_convert) (simp add: numeric_cell label_neq)
  have a4: "all_rows t4 (\<lambda>g. (g (py ''Date'') = NaN \<or> is_timestamp (g (py ''Date''))) \<and>
                is_number (g (py ''NetWeightKGs'')) \<and> is_text (g (py ''ChannelName'')))"
    using s(3) wfs(2) a3 unfolding defs
    by (rule all_rows_convert) (simp add: text_cell label_neq)
  have a5: "all_rows t5 (\<lambda>g. (g (py ''Date'') = NaN \<or> is_timestamp (g (py ''Date''))) \<and>
                is_number (g (py ''NetWeightKGs'')) \<and> is_text (g (py ''ChannelName'')) \<and>
                is_text (g (py ''ProductCategory'')))"
    using s(4) wfs(3) a4 unfolding defs
    by (rule all_rows_convert) (simp add: text_cell label_neq)
  have a6: "all_rows t6 (\<lambda>g. (g (py ''Date'') = NaN \<or> is_timestamp (g (py ''Date''))) \<and>
                is_number (g (py ''NetWeightKGs'')) \<and> is_text (g (py ''ChannelName'')) \<and>
                is_text (g (py ''ProductCategory'')) \<and> is_text (g (py ''ProductName'')))"
    using s(5) wfs(4) a5 unfolding defs
    by (rule all_rows_convert) (simp add: text_cell label_neq)
  have a7: "all_rows t7 converted"
    using s(6) wfs(5) a6 unfolding defs
    by (rule all_rows_convert) (simp add: text_cell label_neq converted_def text_columns_def)
  from a7 wfs(6) cols show ?thesis by simp
qed

lemma all_rows_lookups: "all_rows t Q \<longleftrightarrow> (\<forall>g \<in> lookups t. Q g)"
  by (simp add: all_rows_def lookups_def)

lemma get_absent: "c \<notin> set cols \<Longrightarrow> get cols r c = NaN"
proof -
  assume "c \<notin> set cols"
  then have "c \<notin> fst ` set (zip cols r)"
    by (auto dest: set_zip_leftD)
  then have "map_of (zip cols r) c = None"
    by (simp add: map_of_eq_None_iff)
  then show ?thesis by (simp add: get_def)
qed

lemma lookups_assign:
  "wf_table t \<Longrightarrow> lookups (assign c h t) = (\<lambda>r. (get (columns t) r)(c := h r)) ` set (rows t)"
  by (auto simp add: lookups_def assign_def wf_table_def get_put image_iff)

lemma lookups_convert:
  assumes "convert c e f t = Inr t'" and "wf_table t"
  shows "lookups t' = (\<lambda>g. g(c := f (column t c) (g c))) ` lookups t"
proof -
  from assms(1) have t': "t' = assign c (\<lambda>r. f (column t c) (get (columns t) r c)) t"
    by (simp add: convert_Inr)
  show ?thesis
    unfolding t' lookups_assign[OF assms(2)] by (auto simp add: lookups_def)
qed

lemma lookups_backfill: "wf_table t \<Longrightarrow> lookups (backfill c t) = lookups t"
proof (cases "c \<in> set (columns t)")
  case True
  then show ?thesis by (simp add: backfill_def)
next
  case False
  assume wf: "wf_table t"
  have "(get (columns t) r)(c := NaN) = get (columns t) r" for r
    using False by (auto simp add: get_absent)
  with False show ?thesis
    by (simp add: backfill_def lookups_assign[OF wf]) (simp add: lookups_def)
qed

lemma lookups_fold_backfill: "wf_table t \<Longrightarrow> lookups (fold backfill cs t) = lookups t"
  by (induction cs arbitrary: t) (simp_all add: lookups_backfill wf_backfill)

lemma column_lookups_eq:
  "map (get (columns t)) (rows t) = map (get (columns u)) (rows u) \<Longrightarrow> column t c = column u c"
proof -
  assume "map (get (columns t)) (rows t) = map (get (columns u)) (rows u)"
  then have "map (\<lambda>g. g c) (map (get (columns t)) (rows t)) = map (\<lambda>g. g c) (map (get (columns u)) (rows u))"
    by simp
  then show ?thesis by (simp add: column_def comp_def)
qed

lemma lookup_list_backfill:
  "wf_table t \<Longrightarrow> map (get (columns (backfill c t))) (rows (backfill c t)) = map (get (columns t)) (rows t)"
proof (cases "c \<in> set (columns t)")
  case True
  then show ?thesis by (simp add: backfill_def)
next
  case False
  assume wf: "wf_table t"
  have "(get (columns t) r)(c := NaN) = get (columns t) r" for r
    using False by (auto simp add: get_absent)
  with False wf show ?thesis
    by (simp add: backfill_def assign_def wf_table_def get_put)
qed

lemma lookup_list_fold_backfill:
  "wf_table t \<Longrightarrow>
   map (get (columns (fold backfill cs t))) (rows (fold backfill cs t)) = map (get (columns t)) (rows t)"
  by (induction cs arbitrary: t) (simp_all add: lookup_list_backfill wf_backfill)

lemma column_fold_backfill: "wf_table t \<Longrightarrow> column (fold backfill cs t) c = column t c"
  by (rule column_lookups_eq) (rule lookup_list_fold_backfill)

lemma lookups_dropna_Date: "lookups (dropna_Date t) = {g \<in> lookups t. g (py ''Date'') \<noteq> NaN}"
  by (auto simp add: lookups_def dropna_Date_def)

lemma lookups_drop_empty: "lookups (drop_empty c t) = {g \<in> lookups t. g c \<noteq> Str []}"
  by (auto simp add: lookups_def drop_empty_def)

lemma lookups_drop_duplicates: "lookups (drop_duplicates t) = lookups t"
  by (simp add: lookups_def drop_duplicates_def set_keep_first)

lemma lookups_derive:
  assumes "wf_table t"
  shows "lookups (derive t) =
     (\<lambda>g. g(py ''Month'' := to_period_M_str (g (py ''Date'')), py ''Day'' := dt_date (g (py ''Date'')))) ` lookups t"
proof -
  let ?t1 = "assign (py ''Month'') (\<lambda>r. to_period_M_str (get (columns t) r (py ''Date''))) t"
  have wf1: "wf_table ?t1" using assms by (rule wf_assign)
  have l1: "lookups ?t1 = (\<lambda>g. g(py ''Month'' := to_period_M_str (g (py ''Date'')))) ` lookups t"
    unfolding lookups_assign[OF assms] by (auto simp add: lookups_def)
  have "lookups (derive t) = (\<lambda>g. g(py ''Day'' := dt_date (g (py ''Date'')))) ` lookups ?t1"
    unfolding derive_def Let_def lookups_assign[OF wf1] by (auto simp add: lookups_def)
  also have "\<dots> = (\<lambda>g. g(py ''Month'' := to_period_M_str (g (py ''Date'')), py ''Day'' := dt_date (g (py ''Date'')))) ` lookups t"
    unfolding l1 by (simp add: image_image label_neq)
  finally show ?thesis .
qed

lemma wf_derive: "wf_table t \<Longrightarrow> wf_table (derive t)"
  by (simp add: derive_def Let_def wf_assign)

lemma wf_dropna_Date: "wf_table t \<Longrightarrow> wf_table (dropna_Date t)"
  by (simp add: wf_table_def dropna_Date_def)

lemma wf_drop_empty: "wf_table t \<Longrightarrow> wf_table (drop_empty c t)"
  by (simp add: wf_table_def drop_empty_def)

lemma cleaned_rows:
  assumes "wf_table t" and "clean P t = Inr t'"
  shows "all_rows t' cleaned" and "wf_table t'"
proof -
  from assms(2) obtain t2 t3 t4 t5 t6 t7 where
    s: "fix_date P (fold backfill required t) = Inr t2"
    "fix_numeric P t2 = Inr t3"
    "fix_text P (py ''ChannelName'') t3 = Inr t4"
    "fix_text P (py ''ProductCategory'') t4 = Inr t5"
    "fix_text P (py ''ProductName'') t5 = Inr t6"
    "fix_text P (py ''SalesCategory'') t6 = Inr t7"
    and t': "t' = derive (drop_duplicates
            (drop_empty (py ''ChannelName'') (drop_empty (py ''ProductName'') (dropna_Date t7))))"
    by (rule clean_stages)
  have wf1: "wf_table (fold backfill required t)"
    using assms(1) by (rule wf_fold_backfill)
  from converted_rows[OF wf1 s] have c7: "all_rows t7 converted" and wf7: "wf_table t7" by simp_all
  let ?t8 = "drop_duplicates (drop_empty (py ''ChannelName'') (drop_empty (py ''ProductName'') (dropna_Date t7)))"
  have wf8: "wf_table ?t8"
    using wf7 by (simp add: wf_drop_duplicates wf_drop_empty wf_dropna_Date)
  show "wf_table t'" unfolding t' using wf8 by (rule wf_derive)
  have l8: "lookups ?t8 = {g \<in> lookups t7. g (py ''Date'') \<noteq> NaN \<and> g (py ''ProductName'') \<noteq> Str [] \<and>
             g (py ''ChannelName'') \<noteq> Str []}"
    by (auto simp add: lookups_drop_duplicates lookups_drop_empty lookups_dropna_Date)
  show "all_rows t' cleaned"
    unfolding t' all_rows_lookups lookups_derive[OF wf8] l8
    using c7 by (auto simp add: all_rows_lookups converted_def cleaned_def label_neq text_columns_def)
qed

lemmas clean_eval =
  clean_def and_then_def fix_date_def fix_numeric_def fix_text_def convert_def series_def
  column_def get_def put_def assign_def with_label_def backfill_def required_def
  dropna_Date_def drop_empty_def drop_duplicates_def derive_def Let_def
  sample_table_def sample_pandas_def of_option_def py_def month_label_def digit_def
  strip_def isspace_def wf_table_def

lemma convert_lookup_mem:
  "convert c e f t = Inr t' \<Longrightarrow> wf_table t \<Longrightarrow> g \<in> lookups t \<Longrightarrow>
   g(c := f (column t c) (g c)) \<in> lookups t'"
  by (simp add: lookups_convert)

lemma retained_row:
  assumes wf: "wf_table t" and cl: "clean P t = Inr t'" and g: "g \<in> lookups t"
    and d: "is_timestamp (to_datetime P (column t (py ''Date'')) (g (py ''Date'')))"
    and p: "g (py ''ProductName'') = Str p" "strip p \<noteq> []"
    and c: "g (py ''ChannelName'') = Str c" "strip c \<noteq> []"
  shows "\<exists>g' \<in> lookups t'.
           g' (py ''Date'') = to_datetime P (column t (py ''Date'')) (g (py ''Date'')) \<and>
           g' (py ''NetWeightKGs'') = fillna (Num 0) (to_numeric P (g (py ''NetWeightKGs''))) \<and>
           g' (py ''ProductName'') = Str (strip p) \<and> g' (py ''ChannelName'') = Str (strip c)"
proof -
  from cl obtain t2 t3 t4 t5 t6 t7 where
    s: "fix_date P (fold backfill required t) = Inr t2"
    "fix_numeric P t2 = Inr t3"
    "fix_text P (py ''ChannelName'') t3 = Inr t4"
    "fix_text P (py ''ProductCategory'') t4 = Inr t5"
    "fix_text P (py ''ProductName'') t5 = Inr t6"
    "fix_text P (py ''SalesCategory'') t6 = Inr t7"
    and t': "t' = derive (drop_duplicates
            (drop_empty (py ''ChannelName'') (drop_empty (py ''ProductName'') (dropna_Date t7))))"
    by (rule clean_stages)
  note defs = fix_date_def fix_numeric_def fix_text_def
  let ?t1 = "fold backfill required t"
  have wf1: "wf_table ?t1" using wf by (rule wf_fold_backfill)
  have wfs: "wf_table t2" "wf_table t3" "wf_table t4" "wf_table t5" "wf_table t6" "wf_table t7"
    using wf1 s unfolding defs by (blast intro: convert_wf)+
  have g1: "g \<in> lookups ?t1" using g wf by (simp add: lookups_fold_backfill)
  have col: "column ?t1 (py ''Date'') = column t (py ''Date'')"
    using wf by (rule column_fold_backfill)
  define g2 where "g2 = g(py ''Date'' := to_datetime P (column t (py ''Date'')) (g (py ''Date'')))"
  have m2: "g2 \<in> lookups t2"
    using convert_lookup_mem[OF s(1)[unfolded defs] wf1 g1] by (simp add: g2_def col)
  define g3 where "g3 = g2(py ''NetWeightKGs'' := fillna (Num 0) (to_numeric P (g2 (py ''NetWeightKGs''))))"
  have m3: "g3 \<in> lookups t3"
    using convert_lookup_mem[OF s(2)[unfolded defs] wfs(1) m2] by (simp add: g3_def)
  define g4 where "g4 = g3(py ''ChannelName'' := str_strip (fillna (Str [])
       (astype_str P (column t3 (py ''ChannelName'')) (g3 (py ''ChannelName'')))))"
  have m4: "g4 \<in> lookups t4"
    using convert_lookup_mem[OF s(3)[unfolded defs] wfs(2) m3] by (simp add: g4_def)
  define g5 where "g5 = g4(py ''ProductCategory'' := str_strip (fillna (Str [])
       (astype_str P (column t4 (py ''ProductCategory'')) (g4 (py ''ProductCategory'')))))"
  have m5: "g5 \<in> lookups t5"
    using convert_lookup_mem[OF s(4)[unfolded defs] wfs(3) m4] by (simp add: g5_def)
  define g6 where "g6 = g5(py ''ProductName'' := str_strip (fillna (Str [])
       (astype_str P (column t5 (py ''ProductName'')) (g5 (py ''ProductName'')))))"
  have m6: "g6 \<in> lookups t6"
    using convert_lookup_mem[OF s(5)[unfolded defs] wfs(4) m5] by (simp add: g6_def)
  define g7 where "g7 = g6(py ''SalesCategory'' := str_strip (fillna (Str [])
       (astype_str P (column t6 (py ''SalesCategory'')) (g6 (py ''SalesCategory'')))))"
  have m7: "g7 \<in> lookups t7"
    using convert_lookup_mem[OF s(6)[unfolded defs] wfs(5) m6] by (simp add: g7_def)
  have v: "g7 (py ''Date'') = to_datetime P (column t (py ''Date'')) (g (py ''Date''))"
          "g7 (py ''NetWeightKGs'') = fillna (Num 0) (to_numeric P (g (py ''NetWeightKGs'')))"
          "g7 (py ''ProductName'') = Str (strip p)" "g7 (py ''ChannelName'') = Str (strip c)"
    by (simp_all add: g7_def g6_def g5_def g4_def g3_def g2_def label_neq p c)
  let ?t8 = "drop_duplicates (drop_empty (py ''ChannelName'') (drop_empty (py ''ProductName'') (dropna_Date t7)))"
  have wf8: "wf_table ?t8"
    using wfs(6) by (simp add: wf_drop_duplicates wf_drop_empty wf_dropna_Date)
  have "g7 (py ''Date'') \<noteq> NaN" using d by (auto simp add: v is_timestamp_def)
  then have m8: "g7 \<in> lookups ?t8"
    using m7 p(2) c(2)
    by (simp add: lookups_drop_duplicates lookups_drop_empty lookups_dropna_Date v)
  let ?g' = "g7(py ''Month'' := to_period_M_str (g7 (py ''Date'')), py ''Day'' := dt_date (g7 (py ''Date'')))"
  have "?g' \<in> lookups t'"
    unfolding t' lookups_derive[OF wf8] using m8 by blast
  moreover have "?g' (py ''Date'') = to_datetime P (column t (py ''Date'')) (g (py ''Date''))"
    "?g' (py ''NetWeightKGs'') = fillna (Num 0) (to_numeric P (g (py ''NetWeightKGs'')))"
    "?g' (py ''ProductName'') = Str (strip p)" "?g' (py ''ChannelName'') = Str (strip c)"
    by (simp_all add: v label_neq)
  ultimately show ?thesis by blast
qed

subsection \<open>The claims about the cleaned table\<close>

text \<open>
  Claim C1, as the code has it. Take a well-formed table that the cleaning stage accepts.
  \<^item> In every row of the cleaned table the \<open>NetWeightKGs\<close> cell is a number and the
    \<open>Date\<close> cell is a timestamp, never a missing value.
  \<^item> No row is dropped for its weight: a row of the input whose date parses and whose
    product and channel names are texts that are not blank has a row in the cleaned
    table with that date, those names trimmed, and as weight the converted weight,
    whatever the weight cell was.
  \<^item> The converted weight of a missing cell and of a text that does not parse is 0.
  Nothing raises a negative number to 0: the claim's bound \<open>\<ge> 0\<close> is not part of this.
\<close>

theorem C1_weight_number_date_valid:
  assumes "wf_table t" and "clean P t = Inr t'"
  shows "(\<forall>r \<in> set (rows t').
            (\<exists>x. get (columns t') r (py ''NetWeightKGs'') = Num x) \<and>
            (\<exists>d. get (columns t') r (py ''Date'') = Timestamp d)) \<and>
         (\<forall>r0 \<in> set (rows t). \<forall>p c.
            is_timestamp (to_datetime P (column t (py ''Date'')) (get (columns t) r0 (py ''Date''))) \<and>
            get (columns t) r0 (py ''ProductName'') = Str p \<and> strip p \<noteq> [] \<and>
            get (columns t) r0 (py ''ChannelName'') = Str c \<and> strip c \<noteq> [] \<longrightarrow>
            (\<exists>r \<in> set (rows t').
               get (columns t') r (py ''Date'') =
                 to_datetime P (column t (py ''Date'')) (get (columns t) r0 (py ''Date'')) \<and>
               get (columns t') r (py ''ProductName'') = Str (strip p) \<and>
               get (columns t') r (py ''ChannelName'') = Str (strip c) \<and>
               get (columns t') r (py ''NetWeightKGs'') =
                 fillna (Num 0) (to_numeric P (get (columns t) r0 (py ''NetWeightKGs''))))) \<and>
         fillna (Num 0) (to_numeric P NaN) = Num 0 \<and>
         (\<forall>s. number_of_str P s = None \<longrightarrow> fillna (Num 0) (to_numeric P (Str s)) = Num 0)"
proof (intro conjI ballI allI impI)
  fix r assume r: "r \<in> set (rows t')"
  from cleaned_rows(1)[OF assms] r have cl: "cleaned (get (columns t') r)"
    by (simp add: all_rows_def)
  then show "\<exists>x. get (columns t') r (py ''NetWeightKGs'') = Num x"
    by (auto simp add: cleaned_def is_number_def split: cell.splits)
  from cl show "\<exists>d. get (columns t') r (py ''Date'') = Timestamp d"
    by (auto simp add: cleaned_def is_timestamp_def split: cell.splits)
next
  fix r0 p c
  assume r0: "r0 \<in> set (rows t)"
    and h: "is_timestamp (to_datetime P (column t (py ''Date'')) (get (columns t) r0 (py ''Date''))) \<and>
            get (columns t) r0 (py ''ProductName'') = Str p \<and> strip p \<noteq> [] \<and>
            get (columns t) r0 (py ''ChannelName'') = Str c \<and> strip c \<noteq> []"
  from r0 have g: "get (columns t) r0 \<in> lookups t" by (simp add: lookups_def)
  from retained_row[OF assms g, of p c] h
  show "\<exists>r \<in> set (rows t').
               get (columns t') r (py ''Date'') =
                 to_datetime P (column t (py ''Date'')) (get (columns t) r0 (py ''Date'')) \<and>
               get (columns t') r (py ''ProductName'') = Str (strip p) \<and>
               get (columns t') r (py ''ChannelName'') = Str (strip c) \<and>
               get (columns t') r (py ''NetWeightKGs'') =
                 fillna (Num 0) (to_numeric P (get (columns t) r0 (py ''NetWeightKGs'')))"
    by (auto simp add: lookups_def)
next
  show "fillna (Num 0) (to_numeric P NaN) = Num 0" by simp
next
  fix s assume "number_of_str P s = None"
  then show "fillna (Num 0) (to_numeric P (Str s)) = Num 0" by (simp add: of_option_def)
qed

theorem C1_weight_number_date_valid_witness:
  "wf_table (sample_table [[Str (py '' A''), Str (py ''P''), Str (py ''2024-01-05''), Str (py ''abc'')]]) \<and>
   clean (sample_pandas False)
     (sample_table [[Str (py '' A''), Str (py ''P''), Str (py ''2024-01-05''), Str (py ''abc'')]])
   = Inr \<lparr>columns = [py ''ChannelName'', py ''ProductName'', py ''Date'', py ''NetWeightKGs'',
                     py ''ProductCategory'', py ''SalesCategory'', py ''Month'', py ''Day''],
          rows = [[Str (py ''A''), Str (py ''P''),
                   Timestamp \<lparr>on_date = \<lparr>year = 2024, month = 1, day = 5\<rparr>, time_of_day = 0\<rparr>,
                   Num 0, Str (py ''nan''), Str (py ''nan''), Str (py ''2024-01''),
                   DateOnly \<lparr>year = 2024, month = 1, day = 5\<rparr>]]\<rparr> \<and>
   (\<exists>x. get [py ''ChannelName'', py ''ProductName'', py ''Date'', py ''NetWeightKGs'',
             py ''ProductCategory'', py ''SalesCategory'', py ''Month'', py ''Day'']
            [Str (py ''A''), Str (py ''P''),
             Timestamp \<lparr>on_date = \<lparr>year = 2024, month = 1, day = 5\<rparr>, time_of_day = 0\<rparr>,
             Num 0, Str (py ''nan''), Str (py ''nan''), Str (py ''2024-01''),
             DateOnly \<lparr>year = 2024, month = 1, day = 5\<rparr>] (py ''NetWeightKGs'') = Num x) \<and>
   is_timestamp (to_datetime (sample_pandas False) [Str (py ''2024-01-05'')] (Str (py ''2024-01-05''))) \<and>
   strip (py ''P'') \<noteq> [] \<and> strip (py '' A'') \<noteq> [] \<and>
   (\<exists>r \<in> set [[Str (py ''A''), Str (py ''P''),
                 Timestamp \<lparr>on_date = \<lparr>year = 2024, month = 1, day = 5\<rparr>, time_of_day = 0\<rparr>,
                 Num 0, Str (py ''nan''), Str (py ''nan''), Str (py ''2024-01''),
                 DateOnly \<lparr>year = 2024, month = 1, day = 5\<rparr>]].
      get [py ''ChannelName'', py ''ProductName'', py ''Date'', py ''NetWeightKGs'',
           py ''ProductCategory'', py ''SalesCategory'', py ''Month'', py ''Day''] r (py ''ChannelName'')
        = Str (strip (py '' A'')) \<and>
      get [py ''ChannelName'', py ''ProductName'', py ''Date'', py ''NetWeightKGs'',
           py ''ProductCategory'', py ''SalesCategory'', py ''Month'', py ''Day''] r (py ''NetWeightKGs'')
        = Num 0) \<and>
   number_of_str (sample_pandas False) (py ''abc'') = None \<and>
   fillna (Num 0) (to_numeric (sample_pandas False) (Str (py ''abc''))) = Num 0"
proof -
  let ?r0 = "[Str (py '' A''), Str (py ''P''), Str (py ''2024-01-05''), Str (py ''abc'')]"
  let ?t = "sample_table [?r0]"
  let ?cols' = "[py ''ChannelName'', py ''ProductName'', py ''Date'', py ''NetWeightKGs'',
                     py ''ProductCategory'', py ''SalesCategory'', py ''Month'', py ''Day'']"
  let ?r' = "[Str (py ''A''), Str (py ''P''),
                   Timestamp \<lparr>on_date = \<lparr>year = 2024, month = 1, day = 5\<rparr>, time_of_day = 0\<rparr>,
                   Num 0, Str (py ''nan''), Str (py ''nan''), Str (py ''2024-01''),
                   DateOnly \<lparr>year = 2024, month = 1, day = 5\<rparr>]"
  let ?t' = "\<lparr>columns = ?cols', rows = [?r']\<rparr>"
  have h1: "wf_table ?t" by (simp add: wf_table_def sample_table_def)
  have h2: "clean (sample_pandas False) ?t = Inr ?t'" by (simp add: clean_eval)
  have h3: "number_of_str (sample_pandas False) (py ''abc'') = None"
    by (simp add: sample_pandas_def py_def)
  have col: "column ?t (py ''Date'') = [Str (py ''2024-01-05'')]"
    by (simp add: column_def get_def sample_table_def py_def)
  have g: "get (columns ?t) ?r0 (py ''Date'') = Str (py ''2024-01-05'')"
          "get (columns ?t) ?r0 (py ''ProductName'') = Str (py ''P'')"
          "get (columns ?t) ?r0 (py ''ChannelName'') = Str (py '' A'')"
          "get (columns ?t) ?r0 (py ''NetWeightKGs'') = Str (py ''abc'')"
    by (simp_all add: get_def sample_table_def py_def)
  have p: "is_timestamp (to_datetime (sample_pandas False) [Str (py ''2024-01-05'')] (Str (py ''2024-01-05'')))"
          "strip (py ''P'') \<noteq> []" "strip (py '' A'') \<noteq> []"
    by (simp_all add: is_timestamp_def sample_pandas_def of_option_def strip_def isspace_def py_def)
  note r = C1_weight_number_date_valid[OF h1 h2]
  from r have "\<forall>r \<in> set (rows ?t').
            (\<exists>x. get (columns ?t') r (py ''NetWeightKGs'') = Num x) \<and>
            (\<exists>d. get (columns ?t') r (py ''Date'') = Timestamp d)"
    by (rule conjunct1)
  then have e: "\<exists>x. get ?cols' ?r' (py ''NetWeightKGs'') = Num x"
    by simp
  from r h3 have f: "fillna (Num 0) (to_numeric (sample_pandas False) (Str (py ''abc''))) = Num 0"
    by blast
  have mem: "?r0 \<in> set (rows ?t)" by (simp add: sample_table_def)
  have prem: "is_timestamp (to_datetime (sample_pandas False) (column ?t (py ''Date''))
                 (get (columns ?t) ?r0 (py ''Date''))) \<and>
            get (columns ?t) ?r0 (py ''ProductName'') = Str (py ''P'') \<and> strip (py ''P'') \<noteq> [] \<and>
            get (columns ?t) ?r0 (py ''ChannelName'') = Str (py '' A'') \<and> strip (py '' A'') \<noteq> []"
    using p by (simp add: col g)
  note res = r[THEN conjunct2, THEN conjunct1, rule_format, OF mem prem]
  have k: "\<exists>r \<in> set [?r']. get ?cols' r (py ''ChannelName'') = Str (strip (py '' A'')) \<and>
                  get ?cols' r (py ''NetWeightKGs'') = Num 0"
    using res f by (auto simp add: g)
  from h1 h2 e p k h3 f show ?thesis by (intro conjI)
qed

text \<open>
  Claim C1 as stated fails: a row with the weight \<open>-5\<close> is retained and its weight is
  still \<open>-5\<close>, which is not \<open>\<ge> 0\<close>.
\<close>

theorem C1_negative_weight_kept:
  "wf_table (sample_table [[Str (py ''A''), Str (py ''P''), Str (py ''2024-01-05''), Num (- 5)]]) \<and>
   clean (sample_pandas False)
     (sample_table [[Str (py ''A''), Str (py ''P''), Str (py ''2024-01-05''), Num (- 5)]])
   = Inr \<lparr>columns = [py ''ChannelName'', py ''ProductName'', py ''Date'', py ''NetWeightKGs'',
                     py ''ProductCategory'', py ''SalesCategory'', py ''Month'', py ''Day''],
          rows = [[Str (py ''A''), Str (py ''P''),
                   Timestamp \<lparr>on_date = \<lparr>year = 2024, month = 1, day = 5\<rparr>, time_of_day = 0\<rparr>,
                   Num (- 5), Str (py ''nan''), Str (py ''nan''), Str (py ''2024-01''),
                   DateOnly \<lparr>year = 2024, month = 1, day = 5\<rparr>]]\<rparr> \<and>
   get [py ''ChannelName'', py ''ProductName'', py ''Date'', py ''NetWeightKGs'',
        py ''ProductCategory'', py ''SalesCategory'', py ''Month'', py ''Day'']
       [Str (py ''A''), Str (py ''P''),
        Timestamp \<lparr>on_date = \<lparr>year = 2024, month = 1, day = 5\<rparr>, time_of_day = 0\<rparr>,
        Num (- 5), Str (py ''nan''), Str (py ''nan''), Str (py ''2024-01''),
        DateOnly \<lparr>year = 2024, month = 1, day = 5\<rparr>] (py ''NetWeightKGs'') = Num (- 5) \<and>
   \<not> (0::real) \<le> - 5"
  by (simp add: clean_eval)

text \<open>
  Claim C2, at a table where it fails. With a pandas whose \<open>astype(str)\<close> prints a
  missing value as the text \<open>nan\<close>, a row whose \<open>ChannelName\<close> is missing is not removed:
  it is in the cleaned table with the channel name \<open>nan\<close>. The text conversion turns the
  missing cell into \<open>nan\<close>, not into the empty text, because \<open>fillna("")\<close> comes after
  \<open>astype(str)\<close>; with a pandas that keeps the value missing it would become the empty text.
\<close>

theorem C2_missing_channel_kept_as_nan:
  "clean (sample_pandas False)
     (sample_table [[NaN, Str (py ''P''), Str (py ''2024-01-05''), Num 5]])
   = Inr \<lparr>columns = [py ''ChannelName'', py ''ProductName'', py ''Date'', py ''NetWeightKGs'',
                     py ''ProductCategory'', py ''SalesCategory'', py ''Month'', py ''Day''],
          rows = [[Str (py ''nan''), Str (py ''P''),
                   Timestamp \<lparr>on_date = \<lparr>year = 2024, month = 1, day = 5\<rparr>, time_of_day = 0\<rparr>,
                   Num 5, Str (py ''nan''), Str (py ''nan''), Str (py ''2024-01''),
                   DateOnly \<lparr>year = 2024, month = 1, day = 5\<rparr>]]\<rparr> \<and>
   str_strip (fillna (Str []) (astype_str (sample_pandas False) [NaN] NaN)) = Str (py ''nan'') \<and>
   str_strip (fillna (Str []) (astype_str (sample_pandas True) [NaN] NaN)) = Str []"
  by (simp add: clean_eval)

subsection \<open>Cleaning a cleaned table\<close>

lemma and_then_Inr: "and_then (Inr v) f = f v"
  by (simp add: and_then_def)

lemma filter_rows_id: "\<forall>r \<in> set (rows t). keep r \<Longrightarrow> t\<lparr>rows := filter keep (rows t)\<rparr> = t"
  by (simp add: filter_id_conv)

lemma to_datetime_timestamp: "is_timestamp v \<Longrightarrow> to_datetime P ctx v = v"
  by (cases v) (simp_all add: is_timestamp_def)

lemma timestamp_not_NaN: "is_timestamp v \<Longrightarrow> v \<noteq> NaN"
  by (cases v) (simp_all add: is_timestamp_def)

lemma to_numeric_number: "is_number v \<Longrightarrow> fillna (Num 0) (to_numeric P v) = v"
  by (cases v) (simp_all add: is_number_def)

lemma fix_text_text: "is_text v \<Longrightarrow> str_strip (fillna (Str []) (astype_str P ctx v)) = v"
  by (cases v) (simp_all add: is_text_def)

lemma clean_fixpoint:
  assumes wf: "wf_table t" and cl: "all_rows t cleaned" and dist: "distinct (rows t)"
    and cnt: "\<forall>c \<in> set required. count_list (columns t) c = 1"
    and cm: "count_list (columns t) (py ''Month'') = 1"
    and cd: "count_list (columns t) (py ''Day'') = 1"
  shows "clean P t = Inr t"
proof -
  have sub: "set required \<subseteq> set (columns t)"
    using cnt by (auto intro: count1_mem)
  have b: "fold backfill required t = t"
    using sub by (rule fold_backfill_id)
  have c1: "count_list (columns t) (py ''Date'') = 1" "count_list (columns t) (py ''NetWeightKGs'') = 1"
    "count_list (columns t) (py ''ChannelName'') = 1" "count_list (columns t) (py ''ProductCategory'') = 1"
    "count_list (columns t) (py ''ProductName'') = 1" "count_list (columns t) (py ''SalesCategory'') = 1"
    using cnt by (simp_all add: required_def)
  have d: "fix_date P t = Inr t"
    unfolding fix_date_def using wf c1(1)
  proof (rule convert_id)
    show "all_rows t (\<lambda>g. \<forall>ctx. to_datetime P ctx (g (py ''Date'')) = g (py ''Date''))"
      using cl by (simp add: all_rows_def cleaned_def to_datetime_timestamp)
  qed
  have n: "fix_numeric P t = Inr t"
    unfolding fix_numeric_def using wf c1(2)
  proof (rule convert_id)
    show "all_rows t (\<lambda>g. \<forall>ctx. fillna (Num 0) (to_numeric P (g (py ''NetWeightKGs''))) = g (py ''NetWeightKGs''))"
      using cl by (simp add: all_rows_def cleaned_def to_numeric_number)
  qed
  have tx: "fix_text P c t = Inr t" if "c \<in> set text_columns" for c
    unfolding fix_text_def using wf
  proof (rule convert_id)
    show "count_list (columns t) c = 1"
      using that c1 by (auto simp add: text_columns_def)
    show "all_rows t (\<lambda>g. \<forall>ctx. str_strip (fillna (Str []) (astype_str P ctx (g c))) = g c)"
      using cl that by (simp add: all_rows_def cleaned_def fix_text_text)
  qed
  have f1: "dropna_Date t = t"
    unfolding dropna_Date_def using cl
    by (intro filter_rows_id) (simp add: all_rows_def cleaned_def timestamp_not_NaN)
  have f2: "drop_empty (py ''ProductName'') t = t"
    unfolding drop_empty_def using cl
    by (intro filter_rows_id) (auto simp add: all_rows_def cleaned_def)
  have f3: "drop_empty (py ''ChannelName'') t = t"
    unfolding drop_empty_def using cl
    by (intro filter_rows_id) (auto simp add: all_rows_def cleaned_def)
  have dd: "drop_duplicates t = t"
    by (simp add: drop_duplicates_def keep_first_distinct[OF dist])
  have m: "assign (py ''Month'') (\<lambda>r. to_period_M_str (get (columns t) r (py ''Date''))) t = t"
    using wf cm
  proof (rule assign_id)
    show "\<forall>r\<in>set (rows t). to_period_M_str (get (columns t) r (py ''Date'')) = get (columns t) r (py ''Month'')"
      using cl by (simp add: all_rows_def cleaned_def)
  qed
  have dy: "assign (py ''Day'') (\<lambda>r. dt_date (get (columns t) r (py ''Date''))) t = t"
    using wf cd
  proof (rule assign_id)
    show "\<forall>r\<in>set (rows t). dt_date (get (columns t) r (py ''Date'')) = get (columns t) r (py ''Day'')"
      using cl by (simp add: all_rows_def cleaned_def)
  qed
  have de: "derive t = t"
    by (simp add: derive_def Let_def m dy)
  show ?thesis
    by (simp add: clean_def b d n tx text_columns_def and_then_Inr f1 f2 f3 dd de)
qed

lemma rows_assign_new:
  "c \<notin> set (columns t) \<Longrightarrow> rows (assign c h t) = map (\<lambda>r. r @ [h r]) (rows t)"
  by (simp add: assign_def put_def)

lemma columns_assign_new:
  "c \<notin> set (columns t) \<Longrightarrow> columns (assign c h t) = columns t @ [c]"
  by (simp add: assign_def with_label_def)

lemma distinct_extended: "distinct xs \<Longrightarrow> distinct (map (\<lambda>r. r @ [h r]) xs)"
  by (auto simp add: distinct_map intro!: inj_onI)

lemma derive_new:
  assumes "py ''Month'' \<notin> set (columns t)" and "py ''Day'' \<notin> set (columns t)"
  shows "columns (derive t) = columns t @ [py ''Month'', py ''Day'']"
    and "distinct (rows t) \<Longrightarrow> distinct (rows (derive t))"
proof -
  let ?t1 = "assign (py ''Month'') (\<lambda>r. to_period_M_str (get (columns t) r (py ''Date''))) t"
  have c1: "columns ?t1 = columns t @ [py ''Month'']"
    using assms(1) by (rule columns_assign_new)
  have d1: "py ''Day'' \<notin> set (columns ?t1)"
    using assms(2) by (simp add: c1 label_neq)
  show "columns (derive t) = columns t @ [py ''Month'', py ''Day'']"
    by (simp add: derive_def Let_def columns_assign_new[OF d1] c1)
  assume "distinct (rows t)"
  then have "distinct (rows ?t1)"
    by (simp add: rows_assign_new[OF assms(1)] distinct_extended)
  then show "distinct (rows (derive t))"
    by (simp add: derive_def Let_def rows_assign_new[OF d1] distinct_extended)
qed

lemma count_list_append2:
  "c \<noteq> a \<Longrightarrow> c \<noteq> b \<Longrightarrow> count_list (xs @ [a, b]) c = count_list xs c"
  by simp

lemma count_list_absent: "c \<notin> set xs \<Longrightarrow> count_list xs c = 0"
  by (simp add: count_list_0_iff)

text \<open>
  Claim C5, as the code has it. Take a well-formed table with no column labelled
  \<open>Month\<close> or \<open>Day\<close> that the cleaning stage accepts. Cleaning its cleaned table again
  succeeds and gives that same table: the same columns, the same rows in the same order,
  the same cells.
\<close>

theorem C5_recleaning_is_identity:
  assumes wf: "wf_table t"
    and nm: "py ''Month'' \<notin> set (columns t)" and nd: "py ''Day'' \<notin> set (columns t)"
    and cl: "clean P t = Inr t'"
  shows "clean P t' = Inr t'"
proof -
  from cl obtain t2 t3 t4 t5 t6 t7 where
    s: "fix_date P (fold backfill required t) = Inr t2"
    "fix_numeric P t2 = Inr t3"
    "fix_text P (py ''ChannelName'') t3 = Inr t4"
    "fix_text P (py ''ProductCategory'') t4 = Inr t5"
    "fix_text P (py ''ProductName'') t5 = Inr t6"
    "fix_text P (py ''SalesCategory'') t6 = Inr t7"
    and t': "t' = derive (drop_duplicates
            (drop_empty (py ''ChannelName'') (drop_empty (py ''ProductName'') (dropna_Date t7))))"
    by (rule clean_stages)
  note defs = fix_date_def fix_numeric_def fix_text_def
  let ?t1 = "fold backfill required t"
  let ?t8 = "drop_duplicates (drop_empty (py ''ChannelName'') (drop_empty (py ''ProductName'') (dropna_Date t7)))"
  have cols: "columns t2 = columns ?t1" "columns t3 = columns ?t1" "columns t4 = columns ?t1"
    "columns t5 = columns ?t1" "columns t6 = columns ?t1" "columns t7 = columns ?t1"
    using s unfolding defs by (simp_all add: convert_columns)
  have c8: "columns ?t8 = columns ?t1"
    by (simp add: drop_duplicates_def drop_empty_def dropna_Date_def cols)
  have cnt1: "\<forall>c \<in> set required. count_list (columns ?t1) c = 1"
    using s unfolding defs convert_Inr cols by (simp add: required_def)
  have "py ''Month'' \<notin> set required" "py ''Day'' \<notin> set required"
    by (simp_all add: required_def label_neq)
  with nm nd have n1: "py ''Month'' \<notin> set (columns ?t1)" "py ''Day'' \<notin> set (columns ?t1)"
    by (simp_all add: set_columns_fold_backfill)
  have ct': "columns t' = columns ?t1 @ [py ''Month'', py ''Day'']"
    unfolding t' using n1 by (simp add: derive_new(1) c8)
  have "distinct (rows ?t8)"
    by (simp add: drop_duplicates_def distinct_keep_first)
  then have dist: "distinct (rows t')"
    unfolding t' using n1 by (intro derive_new(2)) (simp_all add: c8)
  have cnt: "\<forall>c \<in> set required. count_list (columns t') c = 1"
    using cnt1 by (simp add: ct' required_def label_neq)
  have cm: "count_list (columns t') (py ''Month'') = 1"
    using n1 by (simp add: ct' count_list_absent label_neq)
  have cd: "count_list (columns t') (py ''Day'') = 1"
    using n1 by (simp add: ct' count_list_absent label_neq)
  from cleaned_rows[OF wf cl] have "wf_table t'" and "all_rows t' cleaned" by simp_all
  then show ?thesis using dist cnt cm cd by (rule clean_fixpoint)
qed

theorem C5_recleaning_is_identity_witness:
  "wf_table (sample_table [[Str (py '' A ''), Str (py ''P''), Str (py ''2024-01-05''), Str (py ''5'')]]) \<and>
   py ''Month'' \<notin> set (columns (sample_table [[Str (py '' A ''), Str (py ''P''), Str (py ''2024-01-05''), Str (py ''5'')]])) \<and>
   py ''Day'' \<notin> set (columns (sample_table [[Str (py '' A ''), Str (py ''P''), Str (py ''2024-01-05''), Str (py ''5'')]])) \<and>
   clean (sample_pandas False)
     (sample_table [[Str (py '' A ''), Str (py ''P''), Str (py ''2024-01-05''), Str (py ''5'')]])
   = Inr \<lparr>columns = [py ''ChannelName'', py ''ProductName'', py ''Date'', py ''NetWeightKGs'',
                     py ''ProductCategory'', py ''SalesCategory'', py ''Month'', py ''Day''],
          rows = [[Str (py ''A''), Str (py ''P''),
                   Timestamp \<lparr>on_date = \<lparr>year = 2024, month = 1, day = 5\<rparr>, time_of_day = 0\<rparr>,
                   Num 5, Str (py ''nan''), Str (py ''nan''), Str (py ''2024-01''),
                   DateOnly \<lparr>year = 2024, month = 1, day = 5\<rparr>]]\<rparr> \<and>
   clean (sample_pandas False)
     \<lparr>columns = [py ''ChannelName'', py ''ProductName'', py ''Date'', py ''NetWeightKGs'',
                     py ''ProductCategory'', py ''SalesCategory'', py ''Month'', py ''Day''],
          rows = [[Str (py ''A''), Str (py ''P''),
                   Timestamp \<lparr>on_date = \<lparr>year = 2024, month = 1, day = 5\<rparr>, time_of_day = 0\<rparr>,
                   Num 5, Str (py ''nan''), Str (py ''nan''), Str (py ''2024-01''),
                   DateOnly \<lparr>year = 2024, month = 1, day = 5\<rparr>]]\<rparr>
   = Inr \<lparr>columns = [py ''ChannelName'', py ''ProductName'', py ''Date'', py ''NetWeightKGs'',
                     py ''ProductCategory'', py ''SalesCategory'', py ''Month'', py ''Day''],
          rows = [[Str (py ''A''), Str (py ''P''),
                   Timestamp \<lparr>on_date = \<lparr>year = 2024, month = 1, day = 5\<rparr>, time_of_day = 0\<rparr>,
                   Num 5, Str (py ''nan''), Str (py ''nan''), Str (py ''2024-01''),
                   DateOnly \<lparr>year = 2024, month = 1, day = 5\<rparr>]]\<rparr>"
proof -
  let ?t = "sample_table [[Str (py '' A ''), Str (py ''P''), Str (py ''2024-01-05''), Str (py ''5'')]]"
  have h1: "wf_table ?t" by (simp add: wf_table_def sample_table_def)
  have h2: "py ''Month'' \<notin> set (columns ?t)" by (simp add: sample_table_def py_def)
  have h3: "py ''Day'' \<notin> set (columns ?t)" by (simp add: sample_table_def py_def)
  have h4: "clean (sample_pandas False) ?t
   = Inr \<lparr>columns = [py ''ChannelName'', py ''ProductName'', py ''Date'', py ''NetWeightKGs'',
                     py ''ProductCategory'', py ''SalesCategory'', py ''Month'', py ''Day''],
          rows = [[Str (py ''A''), Str (py ''P''),
                   Timestamp \<lparr>on_date = \<lparr>year = 2024, month = 1, day = 5\<rparr>, time_of_day = 0\<rparr>,
                   Num 5, Str (py ''nan''), Str (py ''nan''), Str (py ''2024-01''),
                   DateOnly \<lparr>year = 2024, month = 1, day = 5\<rparr>]]\<rparr>"
    by (simp add: clean_eval)
  from h1 h2 h3 h4 C5_recleaning_is_identity[OF h1 h2 h3 h4] show ?thesis by (intro conjI)
qed

text \<open>
  Claim C5 as stated fails for a table that already has a \<open>Month\<close> column. Two rows
  that differ only there both pass the deduplication, which runs before the derivation;
  the derivation then overwrites \<open>Month\<close> and the two rows become equal. Cleaning the
  cleaned table again drops the second of them.
\<close>

theorem C5_month_column_breaks_idempotence:
  "wf_table \<lparr>columns = [py ''ChannelName'', py ''ProductName'', py ''Date'', py ''NetWeightKGs'', py ''Month''],
             rows = [[Str (py ''A''), Str (py ''P''), Str (py ''2024-01-05''), Num 5, Str (py ''Jan'')],
                     [Str (py ''A''), Str (py ''P''), Str (py ''2024-01-05''), Num 5, Str (py ''January'')]]\<rparr> \<and>
   clean (sample_pandas False)
     \<lparr>columns = [py ''ChannelName'', py ''ProductName'', py ''Date'', py ''NetWeightKGs'', py ''Month''],
      rows = [[Str (py ''A''), Str (py ''P''), Str (py ''2024-01-05''), Num 5, Str (py ''Jan'')],
              [Str (py ''A''), Str (py ''P''), Str (py ''2024-01-05''), Num 5, Str (py ''January'')]]\<rparr>
   = Inr \<lparr>columns = [py ''ChannelName'', py ''ProductName'', py ''Date'', py ''NetWeightKGs'', py ''Month'',
                     py ''ProductCategory'', py ''SalesCategory'', py ''Day''],
          rows = [[Str (py ''A''), Str (py ''P''),
                   Timestamp \<lparr>on_date = \<lparr>year = 2024, month = 1, day = 5\<rparr>, time_of_day = 0\<rparr>,
                   Num 5, Str (py ''2024-01''), Str (py ''nan''), Str (py ''nan''),
                   DateOnly \<lparr>year = 2024, month = 1, day = 5\<rparr>],
                  [Str (py ''A''), Str (py ''P''),
                   Timestamp \<lparr>on_date = \<lparr>year = 2024, month = 1, day = 5\<rparr>, time_of_day = 0\<rparr>,
                   Num 5, Str (py ''2024-01''), Str (py ''nan''), Str (py ''nan''),
                   DateOnly \<lparr>year = 2024, month = 1, day = 5\<rparr>]]\<rparr> \<and>
   clean (sample_pandas False)
     \<lparr>columns = [py ''ChannelName'', py ''ProductName'', py ''Date'', py ''NetWeightKGs'', py ''Month'',
                     py ''ProductCategory'', py ''SalesCategory'', py ''Day''],
          rows = [[Str (py ''A''), Str (py ''P''),
                   Timestamp \<lparr>on_date = \<lparr>year = 2024, month = 1, day = 5\<rparr>, time_of_day = 0\<rparr>,
                   Num 5, Str (py ''2024-01''), Str (py ''nan''), Str (py ''nan''),
                   DateOnly \<lparr>year = 2024, month = 1, day = 5\<rparr>],
                  [Str (py ''A''), Str (py ''P''),
                   Timestamp \<lparr>on_date = \<lparr>year = 2024, month = 1, day = 5\<rparr>, time_of_day = 0\<rparr>,
                   Num 5, Str (py ''2024-01''), Str (py ''nan''), Str (py ''nan''),
                   DateOnly \<lparr>year = 2024, month = 1, day = 5\<rparr>]]\<rparr>
   = Inr \<lparr>columns = [py ''ChannelName'', py ''ProductName'', py ''Date'', py ''NetWeightKGs'', py ''Month'',
                     py ''ProductCategory'', py ''SalesCategory'', py ''Day''],
          rows = [[Str (py ''A''), Str (py ''P''),
                   Timestamp \<lparr>on_date = \<lparr>year = 2024, month = 1, day = 5\<rparr>, time_of_day = 0\<rparr>,
                   Num 5, Str (py ''2024-01''), Str (py ''nan''), Str (py ''nan''),
                   DateOnly \<lparr>year = 2024, month = 1, day = 5\<rparr>]]\<rparr>"
  by (simp add: clean_eval)

end
